theory Spec2Isabelle
  imports Main
begin

section \<open>Shared vocabulary\<close>

text \<open>
  Node \<open>Buffer\<close>s are byte lists; \<open>Readable\<close> streams, promises, child processes, sockets
  and named pipes are objects with identity, named here by a number. The logger is a list
  of entries: the level of the call (\<open>log.debug\<close>, \<open>log.info\<close>, \<open>log.warn\<close>, \<open>log.error\<close>)
  and the constant part of its message.
\<close>

type_synonym Buffer = "nat list"
type_synonym Readable = nat
type_synonym promise = nat

datatype level = Debug | Info | Warn | Error

type_synonym log_entry = "level \<times> string"

record Station =
  station_name :: string
  station_serial :: string

record Device =
  device_name :: string
  device_serial :: string

record StreamMetadata =
  videoCodec :: int
  videoFPS :: int

section \<open>LocalLivestreamManager\<close>

text \<open>
  \<open>UniversalStream.StreamInput(sn, stream, log)\<close> builds a bridge object around a
  \<open>Readable\<close>; the class is imported from \<open>../utils/utils\<close>. A bridge is its identity
  and its source; \<open>close()\<close> on it is recorded in \<open>closedStreams\<close>.
\<close>

record UniversalStream =
  us_id :: nat
  us_source :: Readable

record StationStream =
  station :: Station
  device :: Device
  metadata :: StreamMetadata
  vStream :: UniversalStream
  aStream :: UniversalStream
  createdAt :: int

text \<open>
  The manager: its private fields, the listeners that \<open>this.once('livestream start', ...)\<close>
  has registered (each settles the promise of one \<open>startAndGetLocalLiveStream\<close> call),
  and what it has done to its collaborators: the serials passed to
  \<open>eufyClient.startStationLivestream\<close> and \<open>eufyClient.stopStationLivestream\<close>, the
  bridges closed, the video streams that carry a pending \<open>once('data')\<close> listener, the
  promises settled (\<open>Inl\<close> a rejection, \<open>Inr\<close> the value) and the log.
\<close>

record LocalLivestreamManager =
  cameraName :: string
  cameraSN :: string
  deviceSerial :: string
  priv_initSegment :: "Buffer option"
  stationStream :: "StationStream option"
  livestreamStartedAt :: "int option"
  livestreamIsStarting :: bool
  startListeners :: "promise list"
  dataListeners :: "Readable list"
  nextStream :: nat
  startCommands :: "string list"
  stopCommands :: "string list"
  closedStreams :: "nat list"
  settled :: "(promise \<times> (string + StationStream)) list"
  logged :: "log_entry list"

definition say :: "level \<Rightarrow> string \<Rightarrow> LocalLivestreamManager \<Rightarrow> LocalLivestreamManager" where
  "say l msg m = m\<lparr>logged := logged m @ [(l, msg)]\<rparr>"

definition close_stream :: "UniversalStream \<Rightarrow> LocalLivestreamManager \<Rightarrow> LocalLivestreamManager" where
  "close_stream u m = m\<lparr>closedStreams := closedStreams m @ [us_id u]\<rparr>"

text \<open>\<open>initialize()\<close>: closes the bridges of an existing handle and clears three fields.\<close>

definition initialize :: "LocalLivestreamManager \<Rightarrow> LocalLivestreamManager" where
  "initialize m =
     (let m1 = say Debug ''Initialize before livestream.'' m;
          m2 = (case stationStream m1 of
                  Some h \<Rightarrow>
                    close_stream (aStream h)
                      (close_stream (vStream h) (say Debug ''Cleaning before livestream.'' m1))
                | None \<Rightarrow> m1)
      in m2\<lparr>priv_initSegment := None, stationStream := None, livestreamStartedAt := None\<rparr>)"

text \<open>The constructor: the field initialisers, then \<open>initialize()\<close>.\<close>

definition new_LocalLivestreamManager :: "string \<Rightarrow> string \<Rightarrow> string \<Rightarrow> LocalLivestreamManager" where
  "new_LocalLivestreamManager name sn serial =
     initialize
       \<lparr>cameraName = name, cameraSN = sn, deviceSerial = serial,
        priv_initSegment = None, stationStream = None, livestreamStartedAt = None,
        livestreamIsStarting = False, startListeners = [], dataListeners = [],
        nextStream = 0, startCommands = [], stopCommands = [], closedStreams = [],
        settled = [], logged = []\<rparr>"

text \<open>
  \<open>startAndGetLocalLiveStream()\<close>: the promise executor runs synchronously. It sends the
  start command unless one is in flight, then registers the one-shot listener that will
  settle promise \<open>p\<close>.
\<close>

definition startAndGetLocalLiveStream :: "promise \<Rightarrow> LocalLivestreamManager \<Rightarrow> LocalLivestreamManager" where
  "startAndGetLocalLiveStream p m =
     (let m1 = say Debug ''Start new station livestream...'' m;
          m2 = (if \<not> livestreamIsStarting m1
                then m1\<lparr>livestreamIsStarting := True,
                        startCommands := startCommands m1 @ [deviceSerial m1]\<rparr>
                else say Debug ''stream is already starting. waiting...'' m1)
      in m2\<lparr>startListeners := startListeners m2 @ [p]\<rparr>)"

text \<open>
  \<open>getLocalLivestream()\<close>, called for promise \<open>p\<close>: with a handle the promise is fulfilled
  at once, otherwise the call goes through \<open>startAndGetLocalLiveStream\<close>.
\<close>

definition getLocalLivestream :: "promise \<Rightarrow> LocalLivestreamManager \<Rightarrow> LocalLivestreamManager" where
  "getLocalLivestream p m =
     (let m1 = say Debug ''New instance requests livestream.'' m
      in case stationStream m1 of
           Some h \<Rightarrow>
             (say Debug ''Using livestream that was started ... seconds ago.'' m1)
               \<lparr>settled := settled m1 @ [(p, Inr h)]\<rparr>
         | None \<Rightarrow> startAndGetLocalLiveStream p m1)"

text \<open>The body of the one-shot \<open>'livestream start'\<close> listener of promise \<open>p\<close>.\<close>

definition livestream_start_listener :: "promise \<Rightarrow> LocalLivestreamManager \<Rightarrow> LocalLivestreamManager" where
  "livestream_start_listener p m =
     (case stationStream m of
        Some h \<Rightarrow>
          (say Debug ''New livestream started.'' m)
            \<lparr>livestreamIsStarting := False, settled := settled m @ [(p, Inr h)]\<rparr>
      | None \<Rightarrow> m\<lparr>settled := settled m @ [(p, Inl ''no started livestream found'')]\<rparr>)"

text \<open>
  \<open>this.emit('livestream start')\<close>: every listener registered with \<open>once\<close> is removed
  and called, in registration order.
\<close>

definition emit_livestream_start :: "LocalLivestreamManager \<Rightarrow> LocalLivestreamManager" where
  "emit_livestream_start m =
     foldl (\<lambda>s p. livestream_start_listener p s) (m\<lparr>startListeners := []\<rparr>) (startListeners m)"

definition stopLocalLiveStream :: "LocalLivestreamManager \<Rightarrow> LocalLivestreamManager" where
  "stopLocalLiveStream m =
     (let m1 = say Debug ''Stopping station livestream.'' m;
          m2 = m1\<lparr>stopCommands := stopCommands m1 @ [deviceSerial m1]\<rparr>
      in initialize m2)"

definition onStationLivestreamStop :: "Station \<Rightarrow> Device \<Rightarrow> LocalLivestreamManager \<Rightarrow> LocalLivestreamManager" where
  "onStationLivestreamStop st dev m =
     (if device_serial dev = deviceSerial m
      then initialize (say Info ''station livestream has stopped.'' m)
      else m)"

text \<open>
  Lines 133 to 148 of \<open>onStationLivestreamStart\<close>, reached when the notification is not
  discarded. \<open>now\<close> is the value of \<open>Date.now()\<close> in milliseconds, read at one instant for
  the whole handler. \<open>new_StationStream\<close> is the object literal of line 146 around the
  two bridges that \<open>UniversalStream.StreamInput\<close> has just built, numbered from \<open>n\<close>.
\<close>

definition new_StationStream ::
  "int \<Rightarrow> Station \<Rightarrow> Device \<Rightarrow> StreamMetadata \<Rightarrow> Readable \<Rightarrow> Readable \<Rightarrow> nat \<Rightarrow> StationStream" where
  "new_StationStream now st dev md videostream audiostream n =
     \<lparr>station = st, device = dev, metadata = md,
      vStream = \<lparr>us_id = n, us_source = videostream\<rparr>,
      aStream = \<lparr>us_id = n + 1, us_source = audiostream\<rparr>,
      createdAt = now\<rparr>"

definition install_stream ::
  "int \<Rightarrow> Station \<Rightarrow> Device \<Rightarrow> StreamMetadata \<Rightarrow> Readable \<Rightarrow> Readable \<Rightarrow>
   LocalLivestreamManager \<Rightarrow> LocalLivestreamManager" where
  "install_stream now st dev md videostream audiostream m =
     (let m1 = initialize m;
          m2 = say Info ''station livestream (P2P session) has started.'' m1;
          m3 = m2\<lparr>livestreamStartedAt := Some now\<rparr>;
          m4 = m3\<lparr>dataListeners := dataListeners m3 @ [videostream]\<rparr>;
          h = new_StationStream now st dev md videostream audiostream (nextStream m4);
          m5 = m4\<lparr>nextStream := nextStream m4 + 2\<rparr>;
          m6 = m5\<lparr>stationStream := Some h\<rparr>
      in emit_livestream_start m6)"

text \<open>
  \<open>onStationLivestreamStart\<close>. The source computes
  \<open>diff = (Date.now() - createdAt) / 1000\<close> and tests \<open>diff < 5\<close>; on millisecond
  integers that is \<open>now - createdAt < 5000\<close>.
\<close>

definition onStationLivestreamStart ::
  "int \<Rightarrow> Station \<Rightarrow> Device \<Rightarrow> StreamMetadata \<Rightarrow> Readable \<Rightarrow> Readable \<Rightarrow>
   LocalLivestreamManager \<Rightarrow> LocalLivestreamManager" where
  "onStationLivestreamStart now st dev md videostream audiostream m =
     (if device_serial dev = cameraSN m then
        (case stationStream m of
           Some h \<Rightarrow>
             if now - createdAt h < 5000
             then say Warn ''Second livestream was started from station. Ignore.'' m
             else install_stream now st dev md videostream audiostream m
         | None \<Rightarrow> install_stream now st dev md videostream audiostream m)
      else m)"

text \<open>
  The \<open>once('data')\<close> listener of line 139: the first chunk of a video stream that carries
  the listener becomes the init segment.
\<close>

definition onVideoData :: "Readable \<Rightarrow> Buffer \<Rightarrow> LocalLivestreamManager \<Rightarrow> LocalLivestreamManager" where
  "onVideoData videostream chunk m =
     (if videostream \<in> set (dataListeners m)
      then m\<lparr>priv_initSegment := Some chunk,
             dataListeners := removeAll videostream (dataListeners m)\<rparr>
      else m)"

definition initSegment :: "LocalLivestreamManager \<Rightarrow> Buffer option" where
  "initSegment m = priv_initSegment m"

text \<open>
  \<open>getInitSegment()\<close>: the body has no \<open>await\<close> before it calls itself, so the calls nest
  synchronously on an unchanged manager. Not returning is the value \<open>None\<close>. (Any
  \<open>Buffer\<close> object is truthy, also an empty one.)
\<close>

partial_function (option) getInitSegment :: "LocalLivestreamManager \<Rightarrow> Buffer option" where
  "getInitSegment m =
     (case initSegment m of
        Some b \<Rightarrow> Some b
      | None \<Rightarrow> getInitSegment m)"


text \<open>
  What can happen to a manager, one event at a time: a call of \<open>getLocalLivestream\<close> or
  of \<open>stopLocalLiveStream\<close>, a stop or start notification from the client (with the
  time of the handler's \<open>Date.now()\<close>), the first chunk on a video stream.
\<close>

datatype manager_event =
    Acquire promise
  | Release
  | StopNotification Station Device
  | StartNotification int Station Device StreamMetadata Readable Readable
  | VideoData Readable Buffer

fun step :: "manager_event \<Rightarrow> LocalLivestreamManager \<Rightarrow> LocalLivestreamManager" where
  "step (Acquire p) m = getLocalLivestream p m"
| "step Release m = stopLocalLiveStream m"
| "step (StopNotification st dev) m = onStationLivestreamStop st dev m"
| "step (StartNotification now st dev md vs as) m = onStationLivestreamStart now st dev md vs as m"
| "step (VideoData vs chunk) m = onVideoData vs chunk m"

definition run :: "manager_event list \<Rightarrow> LocalLivestreamManager \<Rightarrow> LocalLivestreamManager" where
  "run evs m = foldl (\<lambda>s e. step e s) m evs"

subsection \<open>Example objects\<close>

definition example_station :: Station where
  "example_station = \<lparr>station_name = ''base'', station_serial = ''T8010''\<rparr>"

definition example_device :: Device where
  "example_device = \<lparr>device_name = ''porch'', device_serial = ''T8113''\<rparr>"

definition example_metadata :: StreamMetadata where
  "example_metadata = \<lparr>videoCodec = 0, videoFPS = 15\<rparr>"

definition example_manager :: LocalLivestreamManager where
  "example_manager = new_LocalLivestreamManager ''porch'' ''T8113'' ''T8113''"

text \<open>The example manager after a stream has started at time 1000 on streams 7 and 8.\<close>

definition example_streaming :: LocalLivestreamManager where
  "example_streaming =
     onStationLivestreamStart 1000 example_station example_device example_metadata 7 8 example_manager"



section \<open>StreamingDelegate\<close>

subsection \<open>JavaScript strings and numbers\<close>

text \<open>
  Numbers of the requests and of the configuration are integers; \<open>'' + n\<close> prints them in
  decimal. \<open>split(',')\<close>, \<open>join(',')\<close>, \<open>indexOf\<close> and \<open>splice(i, 1)\<close> are the array
  methods \<open>determineResolution\<close> uses; \<open>toString('base64')\<close> is the standard encoding of
  a byte buffer with padding. A string is truthy when it is defined and not empty.
\<close>

fun show_nat :: "nat \<Rightarrow> string" where
  "show_nat n =
     (if n < 10 then [''0123456789'' ! n]
      else show_nat (n div 10) @ [''0123456789'' ! (n mod 10)])"

declare show_nat.simps [simp del]

definition show_int :: "int \<Rightarrow> string" where
  "show_int i = (if i < 0 then CHR ''-'' # show_nat (nat (- i)) else show_nat (nat i))"

fun split_comma :: "string \<Rightarrow> string list" where
  "split_comma [] = [ [] ]"
| "split_comma (c # cs) =
     (if c = CHR '','' then [] # split_comma cs
      else (case split_comma cs of w # ws \<Rightarrow> (c # w) # ws | [] \<Rightarrow> [ [c] ]))"

fun join_comma :: "string list \<Rightarrow> string" where
  "join_comma [] = []"
| "join_comma [w] = w"
| "join_comma (w # v # ws) = w @ '','' @ join_comma (v # ws)"

fun indexOf :: "'a list \<Rightarrow> 'a \<Rightarrow> int" where
  "indexOf [] y = - 1"
| "indexOf (x # xs) y =
     (if x = y then 0 else (let i = indexOf xs y in if i < 0 then - 1 else i + 1))"

definition splice1 :: "int \<Rightarrow> 'a list \<Rightarrow> 'a list" where
  "splice1 i xs = take (nat i) xs @ drop (nat i + 1) xs"

definition truthy :: "string option \<Rightarrow> bool" where
  "truthy s = (case s of Some t \<Rightarrow> t \<noteq> [] | None \<Rightarrow> False)"

text \<open>\<open>s || e\<close> and \<open>s ? f(s) : e\<close> on an optional string.\<close>

definition js_or :: "string option \<Rightarrow> string \<Rightarrow> string" where
  "js_or s e = (case s of Some t \<Rightarrow> if t \<noteq> [] then t else e | None \<Rightarrow> e)"

definition js_cond :: "string option \<Rightarrow> (string \<Rightarrow> string) \<Rightarrow> string \<Rightarrow> string" where
  "js_cond s f e = (case s of Some t \<Rightarrow> if t \<noteq> [] then f t else e | None \<Rightarrow> e)"

definition base64_alphabet :: string where
  "base64_alphabet = ''ABCDEFGHIJKLMNOPQRSTUVWXYZabcdefghijklmnopqrstuvwxyz0123456789+/''"

fun base64 :: "Buffer \<Rightarrow> string" where
  "base64 (a # b # c # rest) =
     [base64_alphabet ! (a div 4), base64_alphabet ! ((a mod 4) * 16 + b div 16),
      base64_alphabet ! ((b mod 16) * 4 + c div 64), base64_alphabet ! (c mod 64)] @ base64 rest"
| "base64 [a, b] =
     [base64_alphabet ! (a div 4), base64_alphabet ! ((a mod 4) * 16 + b div 16),
      base64_alphabet ! ((b mod 16) * 4), CHR ''='']"
| "base64 [a] =
     [base64_alphabet ! (a div 4), base64_alphabet ! ((a mod 4) * 16), CHR ''='', CHR ''='']"
| "base64 [] = []"

subsection \<open>Types of the delegate\<close>

datatype AudioStreamingCodecType = PCMU | PCMA | AAC_ELD | OPUS | MSBC | AMR | AMR_WB

text \<open>
  \<open>SnapshotRequest\<close>, \<open>VideoInfo\<close> and \<open>ResolutionInfo\<close> share the fields \<open>width\<close> and
  \<open>height\<close>; \<open>determineResolution\<close> reads them from either request type.
\<close>

record Size =
  width :: int
  height :: int

type_synonym SnapshotRequest = Size

record VideoInfo = Size +
  fps :: int
  max_bit_rate :: int
  pt :: int
  rtcp_interval :: int

record AudioInfo =
  codec :: AudioStreamingCodecType
  sample_rate :: int
  audio_max_bit_rate :: int
  channel :: int
  audio_pt :: int
  audio_rtcp_interval :: int

record StartStreamRequest =
  sessionID :: string
  video :: VideoInfo
  audio :: AudioInfo

text \<open>
  \<open>VideoConfig\<close> is declared in \<open>./configTypes\<close>; these are the fields the delegate
  reads. An absent optional field is \<open>None\<close>; \<open>forceMax\<close> absent is falsy.
\<close>

record VideoConfig =
  maxWidth :: "int option"
  maxHeight :: "int option"
  maxFPS :: "int option"
  maxBitrate :: "int option"
  forceMax :: bool
  vcodec :: "string option"
  packetSize :: "int option"
  encoderOptions :: "string option"
  videoFilter :: "string option"
  mapvideo :: "string option"
  mapaudio :: "string option"
  debug :: bool

record ResolutionInfo = Size +
  res_videoFilter :: "string option"
  snapFilter :: "string option"
  resizeFilter :: "string option"

record SessionInfo =
  address :: string
  ipv6 :: bool
  videoPort :: int
  videoReturnPort :: int
  videoCryptoSuite :: int
  videoSRTP :: Buffer
  videoSSRC :: int
  audioPort :: int
  audioReturnPort :: int
  audioCryptoSuite :: int
  audioSRTP :: Buffer
  audioSSRC :: int

text \<open>
  \<open>FfmpegProcess\<close> (\<open>./ffmpeg\<close>) and \<open>NamePipeStream\<close> (\<open>./UniversalStream\<close>) are
  imported classes: an object is its identity and the constructor arguments the delegate
  gives it; \<open>fp_callback\<close> tells whether the stream request's callback was handed to the
  process. A socket and a timer are their identities.
\<close>

record FfmpegProcess =
  fp_id :: nat
  fp_name :: string
  fp_sessionId :: string
  fp_args :: "string list"
  fp_callback :: bool

record NamePipeStream =
  np_id :: nat
  np_source :: Readable
  np_name :: string
  url :: string

record ActiveSession =
  mainProcess_video :: "FfmpegProcess option"
  mainProcess_audio :: "FfmpegProcess option"
  timeout :: "nat option"
  vsocket :: "nat option"
  asocket :: "nat option"
  uVideoStream :: "NamePipeStream option"
  uAudioStream :: "NamePipeStream option"

record StationStream_sd =
  sd_station :: Station
  sd_channel :: int
  sd_metadata :: StreamMetadata
  videostream :: Readable
  audiostream :: Readable

text \<open>The calls of \<open>stopStream\<close> that its \<open>try\<close> blocks guard: each may throw.\<close>

datatype release = StopProcess nat | CloseSocket nat | ClosePipe nat | StopLivestream

text \<open>
  The delegate: its configuration, its fields (\<open>snapshotPromise\<close>, \<open>stationStream\<close>,
  \<open>pendingSessions\<close>, \<open>ongoingSessions\<close>) and what it has done to its collaborators:
  start and stop commands sent to \<open>eufyClient\<close>, \<open>'livestream start'\<close> listeners put on
  the station, pipes opened and closed, processes spawned and stopped, sockets bound and
  closed, timers cleared, snapshot expiry timers armed (their due times), promises
  settled, callbacks invoked (a stream callback with its session id and its error, if
  any; a prepare callback with the port, synchronisation source, key and salt of each
  track; a snapshot callback with its image, if any), the child processes started with
  \<open>spawn\<close> and the log. \<open>failing\<close> lists the
  release calls that throw; \<open>pipeUrl\<close> is the \<open>url\<close> that \<open>StreamInput\<close> gives the pipe
  it opens under a name; \<open>nextId\<close> numbers new objects.
\<close>

record StreamingDelegate =
  cameraName_sd :: string
  videoConfig :: VideoConfig
  videoProcessor :: string
  unbridge :: bool
  enableDetailedLogging :: int
  serial_sd :: string
  pipeUrl :: "string \<Rightarrow> nat \<Rightarrow> string"
  failing :: "release list"
  snapshotPromise :: "promise option"
  stationStream_sd :: "StationStream_sd option"
  pendingSessions :: "string \<rightharpoonup> SessionInfo"
  ongoingSessions :: "string \<rightharpoonup> ActiveSession"
  nextId :: nat
  stationListeners :: nat
  startCommands_sd :: "string list"
  stopCommands_sd :: "string list"
  pipes :: "NamePipeStream list"
  closedPipes :: "nat list"
  spawned :: "FfmpegProcess list"
  stoppedProcesses :: "nat list"
  sockets :: "(nat \<times> string \<times> int) list"
  closedSockets :: "nat list"
  clearedTimeouts :: "nat list"
  snapshotTimers :: "int list"
  settled_sd :: "(promise \<times> (string + Buffer)) list"
  children :: "(nat \<times> string list) list"
  prepareResponses :: "(int \<times> int \<times> Buffer \<times> Buffer) list list"
  callbacks :: "(string \<times> string option) list"
  snapshotCallbacks :: "Buffer option list"
  logged_sd :: "log_entry list"

definition say_sd :: "level \<Rightarrow> string \<Rightarrow> StreamingDelegate \<Rightarrow> StreamingDelegate" where
  "say_sd l msg d = d\<lparr>logged_sd := logged_sd d @ [(l, msg)]\<rparr>"

text \<open>\<open>StreamInput(stream, name, path, log)\<close> opens a named pipe fed from the stream.\<close>

definition StreamInput :: "Readable \<Rightarrow> string \<Rightarrow> StreamingDelegate \<Rightarrow> NamePipeStream \<times> StreamingDelegate" where
  "StreamInput stream name d =
     (let p = \<lparr>np_id = nextId d, np_source = stream, np_name = name,
               url = pipeUrl d name (nextId d)\<rparr>
      in (p, d\<lparr>nextId := nextId d + 1, pipes := pipes d @ [p]\<rparr>))"

definition new_FfmpegProcess ::
  "string \<Rightarrow> string \<Rightarrow> string list \<Rightarrow> bool \<Rightarrow> StreamingDelegate \<Rightarrow> FfmpegProcess \<times> StreamingDelegate" where
  "new_FfmpegProcess name sid args cb d =
     (let p = \<lparr>fp_id = nextId d, fp_name = name, fp_sessionId = sid, fp_args = args,
               fp_callback = cb\<rparr>
      in (p, d\<lparr>nextId := nextId d + 1, spawned := spawned d @ [p]\<rparr>))"

text \<open>\<open>createSocket(type)\<close> followed by \<open>bind(port)\<close> on the new socket.\<close>

definition createSocket :: "string \<Rightarrow> int \<Rightarrow> StreamingDelegate \<Rightarrow> nat \<times> StreamingDelegate" where
  "createSocket typ port d =
     (nextId d, d\<lparr>nextId := nextId d + 1, sockets := sockets d @ [(nextId d, typ, port)]\<rparr>)"

subsection \<open>determineResolution\<close>

definition determineResolution :: "VideoConfig \<Rightarrow> 'a Size_scheme \<Rightarrow> bool \<Rightarrow> ResolutionInfo" where
  "determineResolution cfg request isSnapshot =
     (let w = (if \<not> isSnapshot then
                 (case maxWidth cfg of
                    Some mw \<Rightarrow> if forceMax cfg \<or> width request > mw then mw else width request
                  | None \<Rightarrow> width request)
               else width request);
          h = (if \<not> isSnapshot then
                 (case maxHeight cfg of
                    Some mh \<Rightarrow> if forceMax cfg \<or> height request > mh then mh else height request
                  | None \<Rightarrow> height request)
               else height request);
          filters0 = (case videoFilter cfg of Some f \<Rightarrow> split_comma f | None \<Rightarrow> []);
          noneFilter = indexOf filters0 ''none'';
          filters1 = (if noneFilter \<ge> 0 then splice1 noneFilter filters0 else filters0);
          snap = join_comma filters1;
          resize =
            ''scale='' @
            (if w > 0 then [CHR 0x27] @ ''min('' @ show_int w @ '',iw)'' @ [CHR 0x27] else ''iw'') @
            '':'' @
            (if h > 0 then [CHR 0x27] @ ''min('' @ show_int h @ '',ih)'' @ [CHR 0x27] else ''ih'') @
            '':force_original_aspect_ratio=decrease'';
          resizing = (noneFilter < 0 \<and> (w > 0 \<or> h > 0));
          filters2 = (if resizing
                      then filters1 @ [resize, ''scale='' @ [CHR 0x27] @ ''trunc(iw/2)*2:trunc(ih/2)*2'' @ [CHR 0x27]]
                      else filters1)
      in \<lparr>width = w, height = h,
          res_videoFilter = (if length filters2 > 0 then Some (join_comma filters2) else None),
          snapFilter = Some snap,
          resizeFilter = (if resizing then Some resize else None)\<rparr>)"

subsection \<open>startStream\<close>

text \<open>
  The local variables of lines 442 to 464 of \<open>startStream\<close>: the codec, the packet size,
  the encoder options, the resolution, and the frame rate and bit rate given to the
  encoder.
\<close>

record EncodeParameters =
  ep_vcodec :: string
  ep_mtu :: int
  ep_encoderOptions :: "string option"
  ep_resolution :: ResolutionInfo
  ep_fps :: int
  ep_videoBitrate :: int

definition encodeParameters :: "VideoConfig \<Rightarrow> VideoInfo \<Rightarrow> EncodeParameters" where
  "encodeParameters cfg v =
     (let vc = js_or (vcodec cfg) ''libx264'';
          mtu = (case packetSize cfg of Some n \<Rightarrow> if n = 0 then 1316 else n | None \<Rightarrow> 1316);
          eo = (if \<not> truthy (encoderOptions cfg) \<and> vc = ''libx264''
                then Some ''-preset ultrafast -tune zerolatency''
                else encoderOptions cfg);
          resolution = determineResolution cfg v False;
          f = (case maxFPS cfg of
                 Some mf \<Rightarrow> if forceMax cfg \<or> fps v > mf then mf else fps v
               | None \<Rightarrow> fps v);
          b = (case maxBitrate cfg of
                 Some mb \<Rightarrow> if forceMax cfg \<or> max_bit_rate v > mb then mb else max_bit_rate v
               | None \<Rightarrow> max_bit_rate v)
      in if vc = ''copy''
         then \<lparr>ep_vcodec = vc, ep_mtu = mtu, ep_encoderOptions = eo,
               ep_resolution = resolution\<lparr>width := 0, height := 0, res_videoFilter := None\<rparr>,
               ep_fps = 0, ep_videoBitrate = 0\<rparr>
         else \<lparr>ep_vcodec = vc, ep_mtu = mtu, ep_encoderOptions = eo,
               ep_resolution = resolution, ep_fps = f, ep_videoBitrate = b\<rparr>)"

definition loglevel :: "StreamingDelegate \<Rightarrow> string" where
  "loglevel d = ''-loglevel '' @ (if enableDetailedLogging d \<ge> 1 then ''+verbose'' else ''error'')"

text \<open>The argument list of the video process, before the empty strings are filtered out.\<close>

definition ffmpegArgs_video ::
  "StreamingDelegate \<Rightarrow> StartStreamRequest \<Rightarrow> StationStream_sd \<Rightarrow> NamePipeStream \<Rightarrow>
   SessionInfo \<Rightarrow> EncodeParameters \<Rightarrow> string list" where
  "ffmpegArgs_video d request streamData u sessionInfo ep =
     ['''',
      ''-use_wallclock_as_timestamps 1'',
      (if videoCodec (sd_metadata streamData) = 0 then ''-f h264'' else ''''),
      ''-r '' @ show_int (videoFPS (sd_metadata streamData)),
      ''-i '' @ url u,
      js_cond (mapvideo (videoConfig d)) (\<lambda>m. ''-map '' @ m) ''-an -sn -dn'',
      ''-codec:v '' @ ep_vcodec ep,
      ''-pix_fmt yuv420p'',
      ''-color_range mpeg'',
      (if ep_fps ep > 0 then ''-r '' @ show_int (ep_fps ep) else ''''),
      js_or (ep_encoderOptions ep) '''',
      js_cond (res_videoFilter (ep_resolution ep)) (\<lambda>f. ''-filter:v '' @ f) '''',
      (if ep_videoBitrate ep > 0 then ''-b:v '' @ show_int (ep_videoBitrate ep) @ ''k'' else ''''),
      ''-payload_type '' @ show_int (pt (video request)),
      ''-ssrc '' @ show_int (videoSSRC sessionInfo),
      ''-f rtp'',
      ''-srtp_out_suite AES_CM_128_HMAC_SHA1_80'',
      ''-srtp_out_params '' @ base64 (videoSRTP sessionInfo),
      ''srtp://'' @ address sessionInfo @ '':'' @ show_int (videoPort sessionInfo) @
        ''?rtcpport='' @ show_int (videoPort sessionInfo) @ ''&pkt_size='' @ show_int (ep_mtu ep),
      loglevel d,
      ''-progress pipe:1'']"

definition ffmpegArgs_audio ::
  "StreamingDelegate \<Rightarrow> StartStreamRequest \<Rightarrow> NamePipeStream \<Rightarrow> SessionInfo \<Rightarrow> string list" where
  "ffmpegArgs_audio d request u sessionInfo =
     ['''',
      ''-i '' @ url u,
      js_cond (mapaudio (videoConfig d)) (\<lambda>m. ''-map '' @ m) ''-vn -sn -dn'',
      (if codec (audio request) = OPUS then ''-codec:a libopus -application lowdelay''
       else ''-codec:a libfdk_aac -profile:a aac_eld''),
      ''-flags +global_header'',
      ''-ar '' @ show_int (sample_rate (audio request)) @ ''k'',
      ''-b:a '' @ show_int (audio_max_bit_rate (audio request)) @ ''k'',
      ''-ac '' @ show_int (channel (audio request)),
      ''-payload_type '' @ show_int (audio_pt (audio request)),
      ''-ssrc '' @ show_int (audioSSRC sessionInfo),
      ''-f rtp'',
      ''-srtp_out_suite AES_CM_128_HMAC_SHA1_80'',
      ''-srtp_out_params '' @ base64 (audioSRTP sessionInfo),
      ''srtp://'' @ address sessionInfo @ '':'' @ show_int (audioPort sessionInfo) @
        ''?rtcpport='' @ show_int (audioPort sessionInfo) @ ''&pkt_size=188'',
      loglevel d,
      ''-progress pipe:1'']"

definition clean_args :: "string list \<Rightarrow> string list" where
  "clean_args args = filter (\<lambda>el. el \<noteq> []) args"

text \<open>
  The delegate's own \<open>getLocalLiveStream()\<close>, up to the point where the caller waits.
  The executor looks the station up, sends the start command and puts a listener on the
  station. \<open>Throws\<close>: the lookup throws, which rejects the promise before any command is
  sent. \<open>Never\<close>: the station never announces this device. \<open>Started\<close>: it does, with
  these streams.
\<close>

datatype acquisition = Throws string | Never | Started StationStream_sd

definition getLocalLiveStream_sd :: "acquisition \<Rightarrow> StreamingDelegate \<Rightarrow> StreamingDelegate" where
  "getLocalLiveStream_sd acq d =
     (case acq of
        Throws e \<Rightarrow> d
      | _ \<Rightarrow> d\<lparr>startCommands_sd := startCommands_sd d @ [serial_sd d],
               stationListeners := stationListeners d + 1\<rparr>)"

text \<open>The listener of line 217, run when the station announces this device.\<close>

definition on_livestream_start_sd :: "StationStream_sd \<Rightarrow> StreamingDelegate \<Rightarrow> StreamingDelegate" where
  "on_livestream_start_sd streamData d =
     (if stationListeners d > 0 then d\<lparr>stationStream_sd := Some streamData\<rparr> else d)"

text \<open>How the awaited promise of \<open>getLocalLiveStream()\<close> settles, if it does.\<close>

definition settlement :: "acquisition \<Rightarrow> (string + StationStream_sd) option" where
  "settlement acq =
     (case acq of Throws e \<Rightarrow> Some (Inl e) | Never \<Rightarrow> None | Started s \<Rightarrow> Some (Inr s))"

subsection \<open>stopStream\<close>

text \<open>
  A guarded call either throws (\<open>None\<close>) or returns the delegate with the release
  recorded. \<open>x?.f()\<close> calls \<open>f\<close> when \<open>x\<close> is defined. A \<open>try\<close> block with two calls
  runs the second only if the first returns, and logs the error of whichever throws.
\<close>

definition stop_process :: "FfmpegProcess \<Rightarrow> StreamingDelegate \<Rightarrow> StreamingDelegate option" where
  "stop_process p d =
     (if StopProcess (fp_id p) \<in> set (failing d) then None
      else Some (d\<lparr>stoppedProcesses := stoppedProcesses d @ [fp_id p]\<rparr>))"

definition close_socket :: "nat \<Rightarrow> StreamingDelegate \<Rightarrow> StreamingDelegate option" where
  "close_socket k d =
     (if CloseSocket k \<in> set (failing d) then None
      else Some (d\<lparr>closedSockets := closedSockets d @ [k]\<rparr>))"

definition close_pipe :: "NamePipeStream \<Rightarrow> StreamingDelegate \<Rightarrow> StreamingDelegate option" where
  "close_pipe u d =
     (if ClosePipe (np_id u) \<in> set (failing d) then None
      else Some (d\<lparr>closedPipes := closedPipes d @ [np_id u]\<rparr>))"

definition stopStationLivestream :: "StreamingDelegate \<Rightarrow> StreamingDelegate option" where
  "stopStationLivestream d =
     (if StopLivestream \<in> set (failing d) then None
      else Some (d\<lparr>stopCommands_sd := stopCommands_sd d @ [serial_sd d]\<rparr>))"

definition optional_call ::
  "('a \<Rightarrow> StreamingDelegate \<Rightarrow> StreamingDelegate option) \<Rightarrow> 'a option \<Rightarrow>
   StreamingDelegate \<Rightarrow> StreamingDelegate option" where
  "optional_call f x d = (case x of Some r \<Rightarrow> f r d | None \<Rightarrow> Some d)"

definition try_two ::
  "(StreamingDelegate \<Rightarrow> StreamingDelegate option) \<Rightarrow>
   (StreamingDelegate \<Rightarrow> StreamingDelegate option) \<Rightarrow> string \<Rightarrow>
   StreamingDelegate \<Rightarrow> StreamingDelegate" where
  "try_two a b msg d =
     (case a d of
        None \<Rightarrow> say_sd Error msg d
      | Some d1 \<Rightarrow> (case b d1 of None \<Rightarrow> say_sd Error msg d1 | Some d2 \<Rightarrow> d2))"

definition try_one ::
  "(StreamingDelegate \<Rightarrow> StreamingDelegate option) \<Rightarrow> string \<Rightarrow>
   StreamingDelegate \<Rightarrow> StreamingDelegate" where
  "try_one a msg d = (case a d of None \<Rightarrow> say_sd Error msg d | Some d1 \<Rightarrow> d1)"

definition stopStream :: "string \<Rightarrow> StreamingDelegate \<Rightarrow> StreamingDelegate" where
  "stopStream sessionId d =
     (let d1 = say_sd Info ''Stopping session with id: '' d;
          d2 = (case pendingSessions d1 sessionId of
                  Some pendingSession \<Rightarrow> d1\<lparr>pendingSessions := (pendingSessions d1)(sessionId := None)\<rparr>
                | None \<Rightarrow> d1)
      in case ongoingSessions d2 sessionId of
           Some session \<Rightarrow>
             (let d3 = (case timeout session of
                          Some t \<Rightarrow> d2\<lparr>clearedTimeouts := clearedTimeouts d2 @ [t]\<rparr>
                        | None \<Rightarrow> d2);
                  d4 = try_two (optional_call stop_process (mainProcess_video session))
                               (optional_call stop_process (mainProcess_audio session))
                               ''Error occurred terminating main FFmpeg process: '' d3;
                  d5 = try_two (optional_call close_socket (vsocket session))
                               (optional_call close_socket (asocket session))
                               ''Error occurred closing socket: '' d4;
                  d6 = try_two (optional_call close_pipe (uVideoStream session))
                               (optional_call close_pipe (uAudioStream session))
                               ''Error occurred Universal Stream: '' d5;
                  d7 = try_one stopStationLivestream
                               ''Error occurred terminating Eufy Station livestream: '' d6;
                  d8 = d7\<lparr>ongoingSessions := (ongoingSessions d7)(sessionId := None)\<rparr>
              in say_sd Info ''Stopped video stream.'' d8)
         | None \<Rightarrow> say_sd Debug ''No session to stop.'' d2)"

text \<open>Calls of \<open>stopStream\<close> that run while another call is suspended.\<close>

definition stop_all :: "string list \<Rightarrow> StreamingDelegate \<Rightarrow> StreamingDelegate" where
  "stop_all sids d = foldl (\<lambda>s sid. stopStream sid s) d sids"

subsection \<open>startStream, continued\<close>

text \<open>
  What \<open>startStream\<close> holds in local variables while it waits the 6 seconds of line 534.
\<close>

record start_frame =
  fr_streamData :: StationStream_sd
  fr_sessionInfo :: SessionInfo
  fr_activeSession :: ActiveSession

text \<open>
  Lines 431 to 531, from the settlement of \<open>getLocalLiveStream()\<close> to the 6 second wait.
  A rejection goes to the \<open>catch\<close> of line 623. The error and message handlers put on
  the socket run on later socket events and are not part of this step.
\<close>

definition startStream_resume ::
  "StartStreamRequest \<Rightarrow> string + StationStream_sd \<Rightarrow> StreamingDelegate \<Rightarrow>
   StreamingDelegate \<times> start_frame option" where
  "startStream_resume request outcome d =
     (case outcome of
        Inl err \<Rightarrow> (say_sd Error '' Unable to start the livestream: '' d, None)
      | Inr streamData \<Rightarrow>
          (let d1 = say_sd Debug ''ReqEufy:'' (say_sd Debug ''ReqHK:'' d);
               (u, d2) = StreamInput (videostream streamData) (cameraName_sd d1 @ ''_video'') d1
           in case pendingSessions d2 (sessionID request) of
                Some sessionInfo \<Rightarrow>
                  (let ep = encodeParameters (videoConfig d2) (video request);
                       d3 = say_sd Info ''Starting video stream: ''
                              (say_sd Debug ''Video stream requested: '' d2);
                       args = clean_args (ffmpegArgs_video d3 request streamData u sessionInfo ep);
                       (vs, d4) = createSocket (if ipv6 sessionInfo then ''udp6'' else ''udp4'')
                                    (videoReturnPort sessionInfo) d3;
                       (proc, d5) = new_FfmpegProcess (cameraName_sd d4 @ ''_video'')
                                      (sessionID request) args True d4;
                       activeSession =
                         \<lparr>mainProcess_video = Some proc, mainProcess_audio = None,
                          timeout = None, vsocket = Some vs, asocket = None,
                          uVideoStream = Some u, uAudioStream = None\<rparr>
                   in (d5, Some \<lparr>fr_streamData = streamData, fr_sessionInfo = sessionInfo,
                                  fr_activeSession = activeSession\<rparr>))
              | None \<Rightarrow>
                  ((say_sd Error ''Error finding session information.'' d2)
                     \<lparr>callbacks := callbacks d2 @
                        [(sessionID request, Some ''Error finding session information'')]\<rparr>,
                   None)))"

text \<open>Lines 536 to 595, after the wait: the audio track is added to the session.\<close>

definition assemble_audio ::
  "StartStreamRequest \<Rightarrow> start_frame \<Rightarrow> StreamingDelegate \<Rightarrow> ActiveSession \<times> StreamingDelegate" where
  "assemble_audio request fr d =
     (let sessionInfo = fr_sessionInfo fr;
          (ua, d1) = StreamInput (audiostream (fr_streamData fr)) (cameraName_sd d @ ''_audio'') d
      in if codec (audio request) = OPUS \<or> codec (audio request) = AAC_ELD then
           (let args = clean_args (ffmpegArgs_audio d1 request ua sessionInfo);
                (as, d2) = createSocket (if ipv6 sessionInfo then ''udp6'' else ''udp4'')
                             (audioReturnPort sessionInfo) d1;
                (proc, d3) = new_FfmpegProcess (cameraName_sd d2 @ ''_audio'')
                               (sessionID request) args False d2
            in ((fr_activeSession fr)
                  \<lparr>asocket := Some as, uAudioStream := Some ua, mainProcess_audio := Some proc\<rparr>,
                d3))
         else (fr_activeSession fr, say_sd Error ''Unsupported audio codec requested: '' d1))"

text \<open>
  Lines 605 to 617: the session is registered; if its pending entry is gone it is
  stopped at once.
\<close>

definition startStream_finish ::
  "StartStreamRequest \<Rightarrow> start_frame \<Rightarrow> StreamingDelegate \<Rightarrow> StreamingDelegate" where
  "startStream_finish request fr d =
     (let (activeSession, d2) = assemble_audio request fr d
      in case pendingSessions d2 (sessionID request) of
           Some pendingSession \<Rightarrow>
             d2\<lparr>ongoingSessions := (ongoingSessions d2)(sessionID request \<mapsto> activeSession),
                pendingSessions := (pendingSessions d2)(sessionID request := None)\<rparr>
         | None \<Rightarrow>
             stopStream (sessionID request)
               (say_sd Info ''pendingSession has been deleted. Add it to ongoingSession and end it immediately.''
                  (d2\<lparr>ongoingSessions := (ongoingSessions d2)(sessionID request \<mapsto> activeSession)\<rparr>)))"

text \<open>
  A whole \<open>startStream\<close> call: the acquisition, the calls of \<open>stopStream\<close> that arrive
  while it waits for the stream (\<open>stops1\<close>), lines 431 to 531, the calls that arrive
  during the 6 second wait (\<open>stops2\<close>), lines 536 to 617. A call whose stream is never
  announced stays suspended.
\<close>

definition startStream ::
  "StartStreamRequest \<Rightarrow> acquisition \<Rightarrow> string list \<Rightarrow> string list \<Rightarrow>
   StreamingDelegate \<Rightarrow> StreamingDelegate" where
  "startStream request acq stops1 stops2 d =
     (let d1 = stop_all stops1 (getLocalLiveStream_sd acq d)
      in case settlement acq of
           None \<Rightarrow> d1
         | Some outcome \<Rightarrow>
             (let d2 = (case outcome of Inr s \<Rightarrow> on_livestream_start_sd s d1 | Inl e \<Rightarrow> d1);
                  (d3, frame) = startStream_resume request outcome d2
              in case frame of
                   None \<Rightarrow> d3
                 | Some fr \<Rightarrow> startStream_finish request fr (stop_all stops2 d3)))"

subsection \<open>prepareStream and handleStreamRequest\<close>

record Source =
  port :: int
  srtpCryptoSuite :: int
  srtp_key :: Buffer
  srtp_salt :: Buffer

record PrepareStreamRequest =
  prep_sessionID :: string
  targetAddress :: string
  addressVersion :: string
  prep_video :: Source
  prep_audio :: Source

text \<open>
  \<open>prepareStream\<close>: the two return ports come from \<open>pickPort\<close> and the two
  synchronisation sources from \<open>generateSynchronisationSource\<close>; they are arguments here.
\<close>

definition prepareStream ::
  "PrepareStreamRequest \<Rightarrow> int \<Rightarrow> int \<Rightarrow> int \<Rightarrow> int \<Rightarrow> StreamingDelegate \<Rightarrow> StreamingDelegate" where
  "prepareStream request vport vssrc aport assrc d =
     (let sessionInfo =
            \<lparr>address = targetAddress request, ipv6 = (addressVersion request = ''ipv6''),
             videoPort = port (prep_video request), videoReturnPort = vport,
             videoCryptoSuite = srtpCryptoSuite (prep_video request),
             videoSRTP = srtp_key (prep_video request) @ srtp_salt (prep_video request),
             videoSSRC = vssrc,
             audioPort = port (prep_audio request), audioReturnPort = aport,
             audioCryptoSuite = srtpCryptoSuite (prep_audio request),
             audioSRTP = srtp_key (prep_audio request) @ srtp_salt (prep_audio request),
             audioSSRC = assrc\<rparr>
      in d\<lparr>pendingSessions := (pendingSessions d)(prep_sessionID request \<mapsto> sessionInfo),
            prepareResponses := prepareResponses d @
              [ [(vport, vssrc, srtp_key (prep_video request), srtp_salt (prep_video request)),
                (aport, assrc, srtp_key (prep_audio request), srtp_salt (prep_audio request))] ]\<rparr>)"

text \<open>The \<open>STOP\<close> and \<open>RECONFIGURE\<close> cases of \<open>handleStreamRequest\<close>.\<close>

definition handleStreamRequest_STOP :: "string \<Rightarrow> StreamingDelegate \<Rightarrow> StreamingDelegate" where
  "handleStreamRequest_STOP sid d =
     (let d1 = stopStream sid (say_sd Info ''Receive Apple HK Stop request'' d)
      in d1\<lparr>callbacks := callbacks d1 @ [(sid, None)]\<rparr>)"

definition handleStreamRequest_RECONFIGURE :: "string \<Rightarrow> StreamingDelegate \<Rightarrow> StreamingDelegate" where
  "handleStreamRequest_RECONFIGURE sid d =
     (let d1 = say_sd Debug ''Received request to reconfigure: '' d
      in d1\<lparr>callbacks := callbacks d1 @ [(sid, None)]\<rparr>)"

subsection \<open>Snapshots\<close>

text \<open>\<open>split(/\s+/)\<close> on a command line whose only white space is the space character.\<close>

fun split_ws :: "string \<Rightarrow> string list" where
  "split_ws [] = [ [] ]"
| "split_ws (c # cs) =
     (if c = CHR '' '' then
        (case cs of
           c' # rest \<Rightarrow> if c' = CHR '' '' then split_ws cs else [] # split_ws cs
         | [] \<Rightarrow> [] # split_ws cs)
      else (case split_ws cs of w # ws \<Rightarrow> (c # w) # ws | [] \<Rightarrow> [ [c] ]))"

definition spawn :: "string list \<Rightarrow> StreamingDelegate \<Rightarrow> nat \<times> StreamingDelegate" where
  "spawn args d =
     (nextId d, d\<lparr>nextId := nextId d + 1, children := children d @ [(nextId d, args)]\<rparr>)"

text \<open>
  \<open>fetchSnapshot(snapFilter)\<close> up to its \<open>await\<close>: it returns a new promise, whose
  executor asks for the stream. The promise is returned to the caller and stored
  nowhere.
\<close>

definition fetchSnapshot :: "acquisition \<Rightarrow> StreamingDelegate \<Rightarrow> promise \<times> StreamingDelegate" where
  "fetchSnapshot acq d = (nextId d, getLocalLiveStream_sd acq (d\<lparr>nextId := nextId d + 1\<rparr>))"

record snapshot_frame =
  sf_promise :: promise
  sf_startTime :: int
  sf_child :: nat

text \<open>
  Lines 252 to 280 of \<open>fetchSnapshot\<close>, once the stream has settled; a rejection goes to
  the \<open>catch\<close> of line 311. \<open>now\<close> is \<open>Date.now()\<close>.
\<close>

definition fetchSnapshot_resume ::
  "promise \<Rightarrow> string option \<Rightarrow> string + StationStream_sd \<Rightarrow> int \<Rightarrow> StreamingDelegate \<Rightarrow>
   StreamingDelegate \<times> snapshot_frame option" where
  "fetchSnapshot_resume p snap outcome now d =
     (case outcome of
        Inl err \<Rightarrow>
          ((say_sd Error err d)\<lparr>settled_sd := settled_sd d @ [(p, Inl ''Failed to fetch snapshot.'')]\<rparr>,
           None)
      | Inr streamData \<Rightarrow>
          (let d1 = say_sd Debug ''Received local livestream.'' d;
               ffmpegArgs =
                 ''-probesize 3000 -analyzeduration 0 -ss 00:00:00.500 -i pipe: -frames:v 1 -c:v copy'' @
                 js_cond snap (\<lambda>f. '' -filter:v '' @ f) '''' @
                 '' -f image2 -'' @ '' -hide_banner'' @ '' '' @ loglevel d1;
               d2 = say_sd Debug ''Snapshot command: '' d1;
               (c, d3) = spawn (split_ws ffmpegArgs) d2
           in (d3, Some \<lparr>sf_promise = p, sf_startTime = now, sf_child = c\<rparr>)))"

text \<open>
  The \<open>'close'\<close> handler of the snapshot process (lines 281 to 310), with the bytes the
  process has written. It settles the promise, stops the station stream and arms the
  3 second timer that clears \<open>snapshotPromise\<close>. The run time is compared in
  milliseconds.
\<close>

definition fetchSnapshot_close ::
  "snapshot_frame \<Rightarrow> Buffer \<Rightarrow> int \<Rightarrow> StreamingDelegate \<Rightarrow> StreamingDelegate" where
  "fetchSnapshot_close fr snapshotBuffer now d =
     (let d1 = d\<lparr>settled_sd := settled_sd d @
                  [(sf_promise fr,
                    if length snapshotBuffer > 0 then Inr snapshotBuffer
                    else Inl ''Failed to fetch snapshot.'')]\<rparr>;
          d2 = d1\<lparr>stopCommands_sd := stopCommands_sd d1 @ [serial_sd d1]\<rparr>;
          d3 = d2\<lparr>snapshotTimers := snapshotTimers d2 @ [now + 3000]\<rparr>;
          runtime = now - sf_startTime fr
      in if runtime < 5000 then say_sd Debug ''Fetching snapshot took ... seconds.'' d3
         else if runtime < 22000 then say_sd Warn ''Fetching snapshot took ... seconds.'' d3
         else say_sd Error ''Fetching snapshot took ... seconds.'' d3)"

text \<open>The timers of line 290 that are due at \<open>now\<close> fire.\<close>

definition expire_snapshot :: "int \<Rightarrow> StreamingDelegate \<Rightarrow> StreamingDelegate" where
  "expire_snapshot now d =
     (let due = filter (\<lambda>t. t \<le> now) (snapshotTimers d)
      in if due = [] then d
         else (foldl (\<lambda>s t. say_sd Debug ''Setting snapshotPromise to undefined.'' s) d due)
                \<lparr>snapshotPromise := None,
                 snapshotTimers := filter (\<lambda>t. now < t) (snapshotTimers d)\<rparr>)"

record snapshot_wait =
  sw_promise :: promise
  sw_cached :: bool
  sw_resolution :: ResolutionInfo

text \<open>
  \<open>handleSnapshotRequest\<close> up to its first \<open>await\<close>: it waits for \<open>snapshotPromise\<close> when
  that field holds a promise, and for a new \<open>fetchSnapshot\<close> otherwise.
\<close>

definition handleSnapshotRequest ::
  "SnapshotRequest \<Rightarrow> acquisition \<Rightarrow> StreamingDelegate \<Rightarrow> snapshot_wait \<times> StreamingDelegate" where
  "handleSnapshotRequest request acq d =
     (let d1 = say_sd Debug ''snapshotPromise: '' (say_sd Debug ''handleSnapshotRequest'' d);
          resolution = determineResolution (videoConfig d1) request True;
          cachedSnapshot = (snapshotPromise d1 \<noteq> None);
          d2 = say_sd Debug ''Snapshot requested: '' d1
      in case snapshotPromise d2 of
           Some q \<Rightarrow>
             (\<lparr>sw_promise = q, sw_cached = cachedSnapshot, sw_resolution = resolution\<rparr>, d2)
         | None \<Rightarrow>
             (let (p, d3) = fetchSnapshot acq d2
              in (\<lparr>sw_promise = p, sw_cached = cachedSnapshot, sw_resolution = resolution\<rparr>, d3)))"

text \<open>
  The rest of \<open>handleSnapshotRequest\<close>, once the awaited promise has settled: the resize
  process is started and its output (\<open>resized\<close>) is handed to the callback; a rejection
  is logged and the callback is called without an image.
\<close>

definition handleSnapshotRequest_resume ::
  "snapshot_wait \<Rightarrow> string + Buffer \<Rightarrow> string + Buffer \<Rightarrow> StreamingDelegate \<Rightarrow> StreamingDelegate" where
  "handleSnapshotRequest_resume w outcome resized d =
     (case outcome of
        Inl err \<Rightarrow>
          (say_sd Error err d)\<lparr>snapshotCallbacks := snapshotCallbacks d @ [None]\<rparr>
      | Inr snapshot \<Rightarrow>
          (let d1 = say_sd Debug (''Sending snapshot: '' @ (if sw_cached w then '' (cached)'' else ''''))
                      (say_sd Debug ''snapshot byte lenght: '' d);
               ffmpegArgs = ''-i pipe:'' @ '' -frames:v 1'' @
                 js_cond (resizeFilter (sw_resolution w)) (\<lambda>f. '' -filter:v '' @ f) '''' @
                 '' -f image2 -'';
               d2 = say_sd Debug ''Resize command: '' d1;
               (c, d3) = spawn (split_ws ffmpegArgs) d2
           in case resized of
                Inl err \<Rightarrow> (say_sd Error err d3)\<lparr>snapshotCallbacks := snapshotCallbacks d3 @ [None]\<rparr>
              | Inr img \<Rightarrow> d3\<lparr>snapshotCallbacks := snapshotCallbacks d3 @ [Some img]\<rparr>))"

subsection \<open>Example objects of the delegate\<close>

definition example_config :: VideoConfig where
  "example_config =
     \<lparr>maxWidth = Some 1280, maxHeight = Some 720, maxFPS = Some 15, maxBitrate = Some 300,
      forceMax = True, vcodec = None, packetSize = None, encoderOptions = None,
      videoFilter = None, mapvideo = None, mapaudio = None, debug = False\<rparr>"

definition example_delegate :: StreamingDelegate where
  "example_delegate =
     \<lparr>cameraName_sd = ''porch'', videoConfig = example_config, videoProcessor = ''ffmpeg'',
      unbridge = False, enableDetailedLogging = 0, serial_sd = ''T8113'',
      pipeUrl = (\<lambda>name n. ''unix:/tmp/'' @ name @ ''.sock''), failing = [],
      snapshotPromise = None, stationStream_sd = None,
      pendingSessions = Map.empty, ongoingSessions = Map.empty,
      nextId = 0, stationListeners = 0, startCommands_sd = [], stopCommands_sd = [],
      pipes = [], closedPipes = [], spawned = [], stoppedProcesses = [],
      sockets = [], closedSockets = [], clearedTimeouts = [], snapshotTimers = [],
      settled_sd = [], children = [], prepareResponses = [], callbacks = [],
      snapshotCallbacks = [], logged_sd = []\<rparr>"

definition example_prepare :: PrepareStreamRequest where
  "example_prepare =
     \<lparr>prep_sessionID = ''A'', targetAddress = ''192.168.1.20'', addressVersion = ''ipv4'',
      prep_video = \<lparr>port = 50000, srtpCryptoSuite = 0, srtp_key = [1, 2, 3], srtp_salt = [4, 5]\<rparr>,
      prep_audio = \<lparr>port = 50002, srtpCryptoSuite = 0, srtp_key = [6, 7, 8], srtp_salt = [9]\<rparr>\<rparr>"

text \<open>The example delegate after session \<open>A\<close> has been negotiated.\<close>

definition example_prepared :: StreamingDelegate where
  "example_prepared = prepareStream example_prepare 40000 11 40002 22 example_delegate"

definition example_video :: VideoInfo where
  "example_video =
     \<lparr>width = 1920, height = 1080, fps = 30, max_bit_rate = 800, pt = 99, rtcp_interval = 1\<rparr>"

definition example_start :: StartStreamRequest where
  "example_start =
     \<lparr>sessionID = ''A'', video = example_video,
      audio = \<lparr>codec = AAC_ELD, sample_rate = 16, audio_max_bit_rate = 24, channel = 1,
               audio_pt = 110, audio_rtcp_interval = 5\<rparr>\<rparr>"

text \<open>The same request with an audio codec the delegate does not encode.\<close>

definition example_start_pcmu :: StartStreamRequest where
  "example_start_pcmu = example_start\<lparr>audio := (audio example_start)\<lparr>codec := PCMU\<rparr>\<rparr>"

definition example_streamData :: StationStream_sd where
  "example_streamData =
     \<lparr>sd_station = example_station, sd_channel = 0, sd_metadata = example_metadata,
      videostream = 7, audiostream = 8\<rparr>"

definition example_snapshot :: SnapshotRequest where
  "example_snapshot = \<lparr>width = 640, height = 360\<rparr>"

text \<open>The delegate with session \<open>A\<close> running: negotiated, then started with no interference.\<close>

definition example_running :: StreamingDelegate where
  "example_running = startStream example_start (Started example_streamData) [] [] example_prepared"

text \<open>
  The first snapshot request on the example delegate, at time 0: the stream arrives at
  time 100, the snapshot process closes at time 600 with a two byte image, the resize
  process returns it.
\<close>

definition example_snapshot_wait :: snapshot_wait where
  "example_snapshot_wait =
     fst (handleSnapshotRequest example_snapshot (Started example_streamData) example_delegate)"

definition example_snapshot_fetching :: "StreamingDelegate \<times> snapshot_frame option" where
  "example_snapshot_fetching =
     fetchSnapshot_resume (sw_promise example_snapshot_wait)
       (snapFilter (sw_resolution example_snapshot_wait)) (Inr example_streamData) 100
       (snd (handleSnapshotRequest example_snapshot (Started example_streamData) example_delegate))"

definition example_snapshot_done :: StreamingDelegate where
  "example_snapshot_done =
     (case snd example_snapshot_fetching of
        Some fr \<Rightarrow>
          handleSnapshotRequest_resume example_snapshot_wait (Inr [255, 216]) (Inr [255, 216])
            (fetchSnapshot_close fr [255, 216] 600 (fst example_snapshot_fetching))
      | None \<Rightarrow> fst example_snapshot_fetching)"

subsection \<open>The rules the properties are stated with\<close>

text \<open>
  Clamping as the specification words it: the maximum applies only when it is configured
  and either \<open>forceMax\<close> is set or the requested value exceeds it.
\<close>

definition clamped :: "int option \<Rightarrow> bool \<Rightarrow> int \<Rightarrow> int" where
  "clamped limit force requested =
     (case limit of
        Some m \<Rightarrow> if force \<or> requested > m then m else requested
      | None \<Rightarrow> requested)"

text \<open>
  What one \<open>try\<close> block of \<open>stopStream\<close> releases of its two resources, given the release
  calls that throw: the first unless its call throws, the second only if neither throws.
\<close>

definition released :: "('a \<Rightarrow> release) \<Rightarrow> release list \<Rightarrow> 'a option \<Rightarrow> 'a option \<Rightarrow> 'a list" where
  "released mk fl first second =
     (let rest = (case second of
                    Some y \<Rightarrow> if mk y \<in> set fl then [] else [y]
                  | None \<Rightarrow> [])
      in case first of
           Some x \<Rightarrow> if mk x \<in> set fl then [] else x # rest
         | None \<Rightarrow> rest)"

text \<open>
  What the encoder of a session is run with: the argument list of the video process of
  the session registered under an id.
\<close>

definition video_args :: "StreamingDelegate \<Rightarrow> string \<Rightarrow> string list" where
  "video_args d sid =
     (case ongoingSessions d sid of
        Some s \<Rightarrow> (case mainProcess_video s of Some p \<Rightarrow> fp_args p | None \<Rightarrow> [])
      | None \<Rightarrow> [])"

text \<open>
  The two filters that lines 198 to 202 of \<open>determineResolution\<close> append for a width and
  a height, and the filters the configuration names (line 191).
\<close>

definition scale_filter :: "int \<Rightarrow> int \<Rightarrow> string" where
  "scale_filter w h =
     ''scale='' @
     (if w > 0 then [CHR 0x27] @ ''min('' @ show_int w @ '',iw)'' @ [CHR 0x27] else ''iw'') @
     '':'' @
     (if h > 0 then [CHR 0x27] @ ''min('' @ show_int h @ '',ih)'' @ [CHR 0x27] else ''ih'') @
     '':force_original_aspect_ratio=decrease''"

definition even_filter :: string where
  "even_filter = ''scale='' @ [CHR 0x27] @ ''trunc(iw/2)*2:trunc(ih/2)*2'' @ [CHR 0x27]"

definition configured_filters :: "VideoConfig \<Rightarrow> string list" where
  "configured_filters cfg = (case videoFilter cfg of Some f \<Rightarrow> split_comma f | None \<Rightarrow> [])"

text \<open>The pipe that \<open>startStream\<close> opens for the video stream on a delegate.\<close>

definition video_pipe :: "StreamingDelegate \<Rightarrow> StationStream_sd \<Rightarrow> NamePipeStream" where
  "video_pipe d streamData =
     \<lparr>np_id = nextId d, np_source = videostream streamData,
      np_name = cameraName_sd d @ ''_video'',
      url = pipeUrl d (cameraName_sd d @ ''_video'') (nextId d)\<rparr>"

text \<open>The example delegate after session \<open>A\<close> has been negotiated, with the codec \<open>copy\<close>.\<close>

definition example_prepared_copy :: StreamingDelegate where
  "example_prepared_copy = example_prepared\<lparr>videoConfig := example_config\<lparr>vcodec := Some ''copy''\<rparr>\<rparr>"

section \<open>Properties of LocalLivestreamManager\<close>

lemma say_fields [simp]:
  "stationStream (say l t m) = stationStream m"
  "livestreamIsStarting (say l t m) = livestreamIsStarting m"
  "startListeners (say l t m) = startListeners m"
  "startCommands (say l t m) = startCommands m"
  "stopCommands (say l t m) = stopCommands m"
  "closedStreams (say l t m) = closedStreams m"
  "settled (say l t m) = settled m"
  "deviceSerial (say l t m) = deviceSerial m"
  "cameraSN (say l t m) = cameraSN m"
  "priv_initSegment (say l t m) = priv_initSegment m"
  "livestreamStartedAt (say l t m) = livestreamStartedAt m"
  "nextStream (say l t m) = nextStream m"
  "dataListeners (say l t m) = dataListeners m"
  by (simp_all add: say_def)

lemma initialize_fields:
  "stationStream (initialize m) = None"
  "priv_initSegment (initialize m) = None"
  "livestreamStartedAt (initialize m) = None"
  "startCommands (initialize m) = startCommands m"
  "stopCommands (initialize m) = stopCommands m"
  "startListeners (initialize m) = startListeners m"
  "settled (initialize m) = settled m"
  "livestreamIsStarting (initialize m) = livestreamIsStarting m"
  "nextStream (initialize m) = nextStream m"
  "deviceSerial (initialize m) = deviceSerial m"
  "cameraSN (initialize m) = cameraSN m"
  "dataListeners (initialize m) = dataListeners m"
  "closedStreams (initialize m) =
     closedStreams m @
       (case stationStream m of
          Some h \<Rightarrow> [us_id (vStream h), us_id (aStream h)]
        | None \<Rightarrow> [])"
  by (simp_all add: initialize_def Let_def close_stream_def split: option.splits)

subsection \<open>Concurrent acquisition\<close>












lemma example_manager_fields:
  "stationStream example_manager = None"
  "livestreamIsStarting example_manager = False"
  "priv_initSegment example_manager = None"
  "startListeners example_manager = []"
  "startCommands example_manager = []"
  "stopCommands example_manager = []"
  "closedStreams example_manager = []"
  "settled example_manager = []"
  "cameraSN example_manager = ''T8113''"
  "deviceSerial example_manager = ''T8113''"
  "nextStream example_manager = 0"
  by (simp_all add: example_manager_def new_LocalLivestreamManager_def initialize_def say_def Let_def)






subsection \<open>Release\<close>

text \<open>
  C4, as stated, fails: a release that arrives after \<open>getLocalLivestream\<close> has sent the
  start command and before the stream is announced leaves \<open>livestreamIsStarting\<close> set
  and the one-shot listener of the waiting promise registered.
\<close>

theorem C4_release_keeps_starting_flag:
  "livestreamIsStarting (stopLocalLiveStream (getLocalLivestream 1 example_manager)) \<and>
   startListeners (stopLocalLiveStream (getLocalLivestream 1 example_manager)) = [1]"
  by (simp add: stopLocalLiveStream_def getLocalLivestream_def startAndGetLocalLiveStream_def
      Let_def initialize_fields example_manager_fields)

text \<open>
  C4, amended. \<open>stopLocalLiveStream\<close> sends exactly one \<open>stopStationLivestream\<close> command
  for the device, closes the video and the audio bridge of the handle when there is one
  (and nothing else), and clears the handle, the cached init segment and the start
  timestamp.
\<close>

theorem C4_release_effects:
  "stopCommands (stopLocalLiveStream m) = stopCommands m @ [deviceSerial m] \<and>
   closedStreams (stopLocalLiveStream m) =
     closedStreams m @
       (case stationStream m of
          Some h \<Rightarrow> [us_id (vStream h), us_id (aStream h)]
        | None \<Rightarrow> []) \<and>
   stationStream (stopLocalLiveStream m) = None \<and>
   priv_initSegment (stopLocalLiveStream m) = None \<and>
   livestreamStartedAt (stopLocalLiveStream m) = None \<and>
   startCommands (stopLocalLiveStream m) = startCommands m"
  by (simp add: stopLocalLiveStream_def Let_def initialize_fields)

subsection \<open>Duplicate start notifications\<close>

text \<open>
  C6. A start notification for this camera that arrives while the manager holds a handle
  created less than 5000 ms before is discarded: the manager is left as it was, handle,
  creation time, init segment, bridges and listeners included; only the warning is
  logged.
\<close>

theorem C6_duplicate_start_discarded:
  assumes "device_serial dev = cameraSN m"
    and "stationStream m = Some h"
    and "now - createdAt h < 5000"
  shows "onStationLivestreamStart now st dev md vs as m =
           m\<lparr>logged := logged m @ [(Warn, ''Second livestream was started from station. Ignore.'')]\<rparr>"
  using assms by (simp add: onStationLivestreamStart_def say_def)

lemma example_streaming_fields:
  "cameraSN example_streaming = ''T8113''"
  "stationStream example_streaming =
     Some (new_StationStream 1000 example_station example_device example_metadata 7 8 0)"
  "closedStreams example_streaming = []"
  "priv_initSegment example_streaming = None"
  by (simp_all add: example_streaming_def onStationLivestreamStart_def install_stream_def
      emit_livestream_start_def initialize_fields example_manager_fields example_device_def Let_def)

theorem C6_duplicate_start_discarded_witness:
  "device_serial example_device = cameraSN example_streaming \<and>
   stationStream example_streaming =
     Some (new_StationStream 1000 example_station example_device example_metadata 7 8 0) \<and>
   3000 - createdAt (new_StationStream 1000 example_station example_device example_metadata 7 8 0) < 5000 \<and>
   stationStream (onStationLivestreamStart 3000 example_station example_device example_metadata 9 10
                    example_streaming) =
     Some (new_StationStream 1000 example_station example_device example_metadata 7 8 0) \<and>
   closedStreams (onStationLivestreamStart 3000 example_station example_device example_metadata 9 10
                    example_streaming) = []"
proof -
  have h1: "device_serial example_device = cameraSN example_streaming"
    by (simp add: example_streaming_fields example_device_def)
  have h2: "stationStream example_streaming =
     Some (new_StationStream 1000 example_station example_device example_metadata 7 8 0)"
    by (simp add: example_streaming_fields)
  have h3: "3000 - createdAt (new_StationStream 1000 example_station example_device example_metadata 7 8 0) < 5000"
    by (simp add: new_StationStream_def)
  from C6_duplicate_start_discarded [OF h1 h2 h3, of example_station example_metadata 9 10] h1 h2 h3
  show ?thesis by (simp add: example_streaming_fields)
qed

subsection \<open>The init-segment accessor\<close>

lemma getInitSegment_returns_seen:
  assumes "getInitSegment m = Some b"
  shows "initSegment m = Some b"
proof (rule getInitSegment.raw_induct [OF _ assms])
  fix f :: "LocalLivestreamManager \<Rightarrow> Buffer option" and s c
  assume ih: "\<And>s c. f s = Some c \<Longrightarrow> initSegment s = Some c"
    and body: "(case initSegment s of Some b \<Rightarrow> Some b | None \<Rightarrow> f s) = Some c"
  show "initSegment s = Some c"
  proof (cases "initSegment s")
    case None
    with body have "f s = Some c" by simp
    then show ?thesis by (rule ih)
  next
    case (Some d)
    with body show ?thesis by simp
  qed
qed

lemma getInitSegment_seen:
  "initSegment m = Some b \<Longrightarrow> getInitSegment m = Some b"
  by (subst getInitSegment.simps) simp

lemma getInitSegment_never_returns:
  "initSegment m = None \<Longrightarrow> getInitSegment m = None"
  using getInitSegment_returns_seen [of m] by (cases "getInitSegment m") auto

text \<open>
  C9, evaluated on the code: on a manager that has not seen a video chunk (here a new one)
  \<open>getInitSegment\<close> never returns, and once the chunk has been seen it returns it.
\<close>

theorem C9_getInitSegment_unbounded:
  "getInitSegment example_manager = None \<and>
   getInitSegment (onVideoData 7 [0, 0, 0, 1] example_streaming) = Some [0, 0, 0, 1]"
proof -
  have "initSegment example_manager = None"
    by (simp add: initSegment_def example_manager_fields)
  then have a: "getInitSegment example_manager = None"
    by (rule getInitSegment_never_returns)
  have "dataListeners example_streaming = [7]"
    by (simp add: example_streaming_def onStationLivestreamStart_def install_stream_def
        emit_livestream_start_def initialize_def say_def example_manager_def
        new_LocalLivestreamManager_def example_device_def Let_def)
  then have "initSegment (onVideoData 7 [0, 0, 0, 1] example_streaming) = Some [0, 0, 0, 1]"
    by (simp add: initSegment_def onVideoData_def)
  then have b: "getInitSegment (onVideoData 7 [0, 0, 0, 1] example_streaming) = Some [0, 0, 0, 1]"
    by (rule getInitSegment_seen)
  from a b show ?thesis by simp
qed

section \<open>Properties of StreamingDelegate\<close>

subsection \<open>Effects of the steps, field by field\<close>

lemma say_sd_fields [simp]:
  "failing (say_sd l t d) = failing d"
  "serial_sd (say_sd l t d) = serial_sd d"
  "pendingSessions (say_sd l t d) = pendingSessions d"
  "ongoingSessions (say_sd l t d) = ongoingSessions d"
  "stoppedProcesses (say_sd l t d) = stoppedProcesses d"
  "closedSockets (say_sd l t d) = closedSockets d"
  "closedPipes (say_sd l t d) = closedPipes d"
  "stopCommands_sd (say_sd l t d) = stopCommands_sd d"
  "startCommands_sd (say_sd l t d) = startCommands_sd d"
  "clearedTimeouts (say_sd l t d) = clearedTimeouts d"
  "spawned (say_sd l t d) = spawned d"
  "sockets (say_sd l t d) = sockets d"
  "pipes (say_sd l t d) = pipes d"
  "callbacks (say_sd l t d) = callbacks d"
  "nextId (say_sd l t d) = nextId d"
  "snapshotPromise (say_sd l t d) = snapshotPromise d"
  "videoConfig (say_sd l t d) = videoConfig d"
  "cameraName_sd (say_sd l t d) = cameraName_sd d"
  "logged_sd (say_sd l t d) = logged_sd d @ [(l, t)]"
  by (simp_all add: say_sd_def)

lemma stop_processes_block:
  "stoppedProcesses (try_two (optional_call stop_process v) (optional_call stop_process a) msg d) =
     stoppedProcesses d @ map fp_id (released (\<lambda>p. StopProcess (fp_id p)) (failing d) v a)"
  "failing (try_two (optional_call stop_process v) (optional_call stop_process a) msg d) = failing d"
  "serial_sd (try_two (optional_call stop_process v) (optional_call stop_process a) msg d) = serial_sd d"
  "pendingSessions (try_two (optional_call stop_process v) (optional_call stop_process a) msg d) = pendingSessions d"
  "ongoingSessions (try_two (optional_call stop_process v) (optional_call stop_process a) msg d) = ongoingSessions d"
  "closedSockets (try_two (optional_call stop_process v) (optional_call stop_process a) msg d) = closedSockets d"
  "closedPipes (try_two (optional_call stop_process v) (optional_call stop_process a) msg d) = closedPipes d"
  "stopCommands_sd (try_two (optional_call stop_process v) (optional_call stop_process a) msg d) = stopCommands_sd d"
  "spawned (try_two (optional_call stop_process v) (optional_call stop_process a) msg d) = spawned d"
  "sockets (try_two (optional_call stop_process v) (optional_call stop_process a) msg d) = sockets d"
  "pipes (try_two (optional_call stop_process v) (optional_call stop_process a) msg d) = pipes d"
  "callbacks (try_two (optional_call stop_process v) (optional_call stop_process a) msg d) = callbacks d"
  by (simp_all add: try_two_def optional_call_def stop_process_def released_def Let_def
      split: option.splits)

lemma close_sockets_block:
  "closedSockets (try_two (optional_call close_socket v) (optional_call close_socket a) msg d) =
     closedSockets d @ released CloseSocket (failing d) v a"
  "failing (try_two (optional_call close_socket v) (optional_call close_socket a) msg d) = failing d"
  "serial_sd (try_two (optional_call close_socket v) (optional_call close_socket a) msg d) = serial_sd d"
  "pendingSessions (try_two (optional_call close_socket v) (optional_call close_socket a) msg d) = pendingSessions d"
  "ongoingSessions (try_two (optional_call close_socket v) (optional_call close_socket a) msg d) = ongoingSessions d"
  "stoppedProcesses (try_two (optional_call close_socket v) (optional_call close_socket a) msg d) = stoppedProcesses d"
  "closedPipes (try_two (optional_call close_socket v) (optional_call close_socket a) msg d) = closedPipes d"
  "stopCommands_sd (try_two (optional_call close_socket v) (optional_call close_socket a) msg d) = stopCommands_sd d"
  "spawned (try_two (optional_call close_socket v) (optional_call close_socket a) msg d) = spawned d"
  "sockets (try_two (optional_call close_socket v) (optional_call close_socket a) msg d) = sockets d"
  "pipes (try_two (optional_call close_socket v) (optional_call close_socket a) msg d) = pipes d"
  "callbacks (try_two (optional_call close_socket v) (optional_call close_socket a) msg d) = callbacks d"
  by (simp_all add: try_two_def optional_call_def close_socket_def released_def Let_def
      split: option.splits)

lemma close_pipes_block:
  "closedPipes (try_two (optional_call close_pipe v) (optional_call close_pipe a) msg d) =
     closedPipes d @ map np_id (released (\<lambda>u. ClosePipe (np_id u)) (failing d) v a)"
  "failing (try_two (optional_call close_pipe v) (optional_call close_pipe a) msg d) = failing d"
  "serial_sd (try_two (optional_call close_pipe v) (optional_call close_pipe a) msg d) = serial_sd d"
  "pendingSessions (try_two (optional_call close_pipe v) (optional_call close_pipe a) msg d) = pendingSessions d"
  "ongoingSessions (try_two (optional_call close_pipe v) (optional_call close_pipe a) msg d) = ongoingSessions d"
  "stoppedProcesses (try_two (optional_call close_pipe v) (optional_call close_pipe a) msg d) = stoppedProcesses d"
  "closedSockets (try_two (optional_call close_pipe v) (optional_call close_pipe a) msg d) = closedSockets d"
  "stopCommands_sd (try_two (optional_call close_pipe v) (optional_call close_pipe a) msg d) = stopCommands_sd d"
  "spawned (try_two (optional_call close_pipe v) (optional_call close_pipe a) msg d) = spawned d"
  "sockets (try_two (optional_call close_pipe v) (optional_call close_pipe a) msg d) = sockets d"
  "pipes (try_two (optional_call close_pipe v) (optional_call close_pipe a) msg d) = pipes d"
  "callbacks (try_two (optional_call close_pipe v) (optional_call close_pipe a) msg d) = callbacks d"
  by (simp_all add: try_two_def optional_call_def close_pipe_def released_def Let_def
      split: option.splits)

lemma stop_livestream_block:
  "stopCommands_sd (try_one stopStationLivestream msg d) =
     stopCommands_sd d @ (if StopLivestream \<in> set (failing d) then [] else [serial_sd d])"
  "failing (try_one stopStationLivestream msg d) = failing d"
  "serial_sd (try_one stopStationLivestream msg d) = serial_sd d"
  "pendingSessions (try_one stopStationLivestream msg d) = pendingSessions d"
  "ongoingSessions (try_one stopStationLivestream msg d) = ongoingSessions d"
  "stoppedProcesses (try_one stopStationLivestream msg d) = stoppedProcesses d"
  "closedSockets (try_one stopStationLivestream msg d) = closedSockets d"
  "closedPipes (try_one stopStationLivestream msg d) = closedPipes d"
  "spawned (try_one stopStationLivestream msg d) = spawned d"
  "sockets (try_one stopStationLivestream msg d) = sockets d"
  "pipes (try_one stopStationLivestream msg d) = pipes d"
  "callbacks (try_one stopStationLivestream msg d) = callbacks d"
  by (simp_all add: try_one_def stopStationLivestream_def)

lemmas teardown_blocks =
  stop_processes_block close_sockets_block close_pipes_block stop_livestream_block

lemma stopStream_unknown:
  "pendingSessions d sid = None \<Longrightarrow> ongoingSessions d sid = None \<Longrightarrow>
   stopStream sid d = say_sd Debug ''No session to stop.'' (say_sd Info ''Stopping session with id: '' d)"
  by (simp add: stopStream_def Let_def)

lemma stopStream_tables:
  "pendingSessions (stopStream sid d) = (pendingSessions d)(sid := None)"
  "ongoingSessions (stopStream sid d) = (ongoingSessions d)(sid := None)"
  by (auto simp add: stopStream_def Let_def teardown_blocks split: option.splits)


lemma stopStream_releases:
  assumes "ongoingSessions d sid = Some s"
  shows "stoppedProcesses (stopStream sid d) =
           stoppedProcesses d @
             map fp_id (released (\<lambda>p. StopProcess (fp_id p)) (failing d)
                          (mainProcess_video s) (mainProcess_audio s))"
    and "closedSockets (stopStream sid d) =
           closedSockets d @ released CloseSocket (failing d) (vsocket s) (asocket s)"
    and "closedPipes (stopStream sid d) =
           closedPipes d @
             map np_id (released (\<lambda>u. ClosePipe (np_id u)) (failing d)
                          (uVideoStream s) (uAudioStream s))"
    and "stopCommands_sd (stopStream sid d) =
           stopCommands_sd d @ (if StopLivestream \<in> set (failing d) then [] else [serial_sd d])"
  using assms by (simp_all add: stopStream_def Let_def teardown_blocks split: option.splits)

lemma assemble_audio_frame:
  "failing (snd (assemble_audio request fr d)) = failing d"
  "serial_sd (snd (assemble_audio request fr d)) = serial_sd d"
  "pendingSessions (snd (assemble_audio request fr d)) = pendingSessions d"
  "ongoingSessions (snd (assemble_audio request fr d)) = ongoingSessions d"
  "stoppedProcesses (snd (assemble_audio request fr d)) = stoppedProcesses d"
  "closedSockets (snd (assemble_audio request fr d)) = closedSockets d"
  "closedPipes (snd (assemble_audio request fr d)) = closedPipes d"
  "stopCommands_sd (snd (assemble_audio request fr d)) = stopCommands_sd d"
  "callbacks (snd (assemble_audio request fr d)) = callbacks d"
  by (simp_all add: assemble_audio_def StreamInput_def createSocket_def new_FfmpegProcess_def Let_def)

lemma assemble_audio_unsupported:
  assumes "codec (audio request) \<noteq> OPUS" and "codec (audio request) \<noteq> AAC_ELD"
  shows "fst (assemble_audio request fr d) = fr_activeSession fr"
    and "spawned (snd (assemble_audio request fr d)) = spawned d"
    and "sockets (snd (assemble_audio request fr d)) = sockets d"
    and "logged_sd (snd (assemble_audio request fr d)) =
           logged_sd d @ [(Error, ''Unsupported audio codec requested: '')]"
  using assms by (simp_all add: assemble_audio_def StreamInput_def Let_def)

lemma assemble_audio_new:
  "mainProcess_video (fst (assemble_audio request fr d)) = mainProcess_video (fr_activeSession fr)"
  "vsocket (fst (assemble_audio request fr d)) = vsocket (fr_activeSession fr)"
  "uVideoStream (fst (assemble_audio request fr d)) = uVideoStream (fr_activeSession fr)"
  "set (spawned (snd (assemble_audio request fr d))) - set (spawned d) \<subseteq>
     set_option (mainProcess_audio (fst (assemble_audio request fr d)))"
  "fst ` (set (sockets (snd (assemble_audio request fr d))) - set (sockets d)) \<subseteq>
     set_option (asocket (fst (assemble_audio request fr d)))"
  by (auto simp add: assemble_audio_def StreamInput_def createSocket_def new_FfmpegProcess_def Let_def)



lemma resume_found:
  assumes "pendingSessions d (sessionID request) = Some info"
  shows "map_option (\<lambda>fr. map_option fp_id (mainProcess_video (fr_activeSession fr)))
           (snd (startStream_resume request (Inr sd) d)) = Some (Some (nextId d + 2))"
    and "map_option (\<lambda>fr. vsocket (fr_activeSession fr))
           (snd (startStream_resume request (Inr sd) d)) = Some (Some (nextId d + 1))"
    and "map_option (\<lambda>fr. map_option np_id (uVideoStream (fr_activeSession fr)))
           (snd (startStream_resume request (Inr sd) d)) = Some (Some (nextId d))"
    and "map_option (\<lambda>fr. mainProcess_audio (fr_activeSession fr))
           (snd (startStream_resume request (Inr sd) d)) = Some None"
    and "map_option (\<lambda>fr. asocket (fr_activeSession fr))
           (snd (startStream_resume request (Inr sd) d)) = Some None"
    and "map_option (\<lambda>fr. uAudioStream (fr_activeSession fr))
           (snd (startStream_resume request (Inr sd) d)) = Some None"
    and "map fp_id (spawned (fst (startStream_resume request (Inr sd) d))) =
           map fp_id (spawned d) @ [nextId d + 2]"
    and "map fst (sockets (fst (startStream_resume request (Inr sd) d))) =
           map fst (sockets d) @ [nextId d + 1]"
    and "map np_id (pipes (fst (startStream_resume request (Inr sd) d))) =
           map np_id (pipes d) @ [nextId d]"
    and "pendingSessions (fst (startStream_resume request (Inr sd) d)) = pendingSessions d"
    and "ongoingSessions (fst (startStream_resume request (Inr sd) d)) = ongoingSessions d"
    and "stoppedProcesses (fst (startStream_resume request (Inr sd) d)) = stoppedProcesses d"
    and "closedSockets (fst (startStream_resume request (Inr sd) d)) = closedSockets d"
    and "closedPipes (fst (startStream_resume request (Inr sd) d)) = closedPipes d"
    and "callbacks (fst (startStream_resume request (Inr sd) d)) = callbacks d"
    and "failing (fst (startStream_resume request (Inr sd) d)) = failing d"
    and "serial_sd (fst (startStream_resume request (Inr sd) d)) = serial_sd d"
    and "stopCommands_sd (fst (startStream_resume request (Inr sd) d)) = stopCommands_sd d"
    and "logged_sd (fst (startStream_resume request (Inr sd) d)) =
           logged_sd d @ [(Debug, ''ReqHK:''), (Debug, ''ReqEufy:''),
             (Debug, ''Video stream requested: ''), (Info, ''Starting video stream: '')]"
  using assms
  by (simp_all add: startStream_resume_def StreamInput_def createSocket_def new_FfmpegProcess_def
      Let_def say_sd_def)

lemma stop_all_none [simp]: "stop_all [] d = d"
  by (simp add: stop_all_def)


lemma start_undisturbed:
  "startStream request (Started sd) [] [] d =
     (case snd (startStream_resume request (Inr sd)
                  (on_livestream_start_sd sd (getLocalLiveStream_sd (Started sd) d))) of
        None \<Rightarrow> fst (startStream_resume request (Inr sd)
                  (on_livestream_start_sd sd (getLocalLiveStream_sd (Started sd) d)))
      | Some fr \<Rightarrow> startStream_finish request fr
          (fst (startStream_resume request (Inr sd)
                  (on_livestream_start_sd sd (getLocalLiveStream_sd (Started sd) d)))))"
  by (simp add: startStream_def stop_all_def settlement_def case_prod_beta Let_def)

lemma acquired_frame:
  "pendingSessions (on_livestream_start_sd sd (getLocalLiveStream_sd (Started sd) d)) = pendingSessions d"
  "ongoingSessions (on_livestream_start_sd sd (getLocalLiveStream_sd (Started sd) d)) = ongoingSessions d"
  "nextId (on_livestream_start_sd sd (getLocalLiveStream_sd (Started sd) d)) = nextId d"
  "spawned (on_livestream_start_sd sd (getLocalLiveStream_sd (Started sd) d)) = spawned d"
  "sockets (on_livestream_start_sd sd (getLocalLiveStream_sd (Started sd) d)) = sockets d"
  "pipes (on_livestream_start_sd sd (getLocalLiveStream_sd (Started sd) d)) = pipes d"
  "stoppedProcesses (on_livestream_start_sd sd (getLocalLiveStream_sd (Started sd) d)) = stoppedProcesses d"
  "closedSockets (on_livestream_start_sd sd (getLocalLiveStream_sd (Started sd) d)) = closedSockets d"
  "closedPipes (on_livestream_start_sd sd (getLocalLiveStream_sd (Started sd) d)) = closedPipes d"
  "callbacks (on_livestream_start_sd sd (getLocalLiveStream_sd (Started sd) d)) = callbacks d"
  "logged_sd (on_livestream_start_sd sd (getLocalLiveStream_sd (Started sd) d)) = logged_sd d"
  "stopCommands_sd (on_livestream_start_sd sd (getLocalLiveStream_sd (Started sd) d)) = stopCommands_sd d"
  "failing (on_livestream_start_sd sd (getLocalLiveStream_sd (Started sd) d)) = failing d"
  "serial_sd (on_livestream_start_sd sd (getLocalLiveStream_sd (Started sd) d)) = serial_sd d"
  "startCommands_sd (on_livestream_start_sd sd (getLocalLiveStream_sd (Started sd) d)) =
     startCommands_sd d @ [serial_sd d]"
  by (simp_all add: on_livestream_start_sd_def getLocalLiveStream_sd_def)

lemma finish_registered:
  assumes "pendingSessions d (sessionID request) = Some info"
  shows "startStream_finish request fr d =
           (snd (assemble_audio request fr d))
             \<lparr>ongoingSessions := (ongoingSessions d)(sessionID request \<mapsto> fst (assemble_audio request fr d)),
              pendingSessions := (pendingSessions d)(sessionID request := None)\<rparr>"
  using assms by (simp add: startStream_finish_def case_prod_beta assemble_audio_frame)

lemma start_unsupported:
  assumes "codec (audio request) \<noteq> OPUS" and "codec (audio request) \<noteq> AAC_ELD"
    and "pendingSessions d (sessionID request) = Some info"
  shows "map_option (\<lambda>s. (map_option fp_id (mainProcess_video s), vsocket s,
                          map_option np_id (uVideoStream s),
                          mainProcess_audio s, asocket s, uAudioStream s))
           (ongoingSessions (startStream request (Started sd) [] [] d) (sessionID request)) =
           Some (Some (nextId d + 2), Some (nextId d + 1), Some (nextId d), None, None, None) \<and>
         map fp_id (spawned (startStream request (Started sd) [] [] d)) =
           map fp_id (spawned d) @ [nextId d + 2] \<and>
         map fst (sockets (startStream request (Started sd) [] [] d)) =
           map fst (sockets d) @ [nextId d + 1] \<and>
         stoppedProcesses (startStream request (Started sd) [] [] d) = stoppedProcesses d \<and>
         closedSockets (startStream request (Started sd) [] [] d) = closedSockets d \<and>
         closedPipes (startStream request (Started sd) [] [] d) = closedPipes d \<and>
         stopCommands_sd (startStream request (Started sd) [] [] d) = stopCommands_sd d \<and>
         callbacks (startStream request (Started sd) [] [] d) = callbacks d \<and>
         logged_sd (startStream request (Started sd) [] [] d) =
           logged_sd d @ [(Debug, ''ReqHK:''), (Debug, ''ReqEufy:''),
             (Debug, ''Video stream requested: ''), (Info, ''Starting video stream: ''),
             (Error, ''Unsupported audio codec requested: '')]"
proof -
  let ?d0 = "on_livestream_start_sd sd (getLocalLiveStream_sd (Started sd) d)"
  let ?r = "startStream_resume request (Inr sd) ?d0"
  have p0: "pendingSessions ?d0 (sessionID request) = Some info"
    by (simp add: acquired_frame assms(3))
  note r = resume_found [OF p0, of sd]
  from r(4) obtain fr where fr: "snd ?r = Some fr" by (cases "snd ?r") auto
  have p1: "pendingSessions (fst ?r) (sessionID request) = Some info"
    by (simp add: r(10) p0)
  have run: "startStream request (Started sd) [] [] d = startStream_finish request fr (fst ?r)"
    by (simp add: start_undisturbed fr)
  note fin = finish_registered [OF p1, of fr]
  note un = assemble_audio_unsupported [OF assms(1) assms(2), of fr "fst ?r"]
  from r fr have sess:
    "map_option fp_id (mainProcess_video (fr_activeSession fr)) = Some (nextId d + 2)"
    "vsocket (fr_activeSession fr) = Some (nextId d + 1)"
    "map_option np_id (uVideoStream (fr_activeSession fr)) = Some (nextId d)"
    "mainProcess_audio (fr_activeSession fr) = None"
    "asocket (fr_activeSession fr) = None"
    "uAudioStream (fr_activeSession fr) = None"
    by (simp_all add: acquired_frame)
  show ?thesis
    by (simp add: run fin un sess r assemble_audio_frame acquired_frame)
qed

lemma start_supported:
  assumes "codec (audio request) = OPUS \<or> codec (audio request) = AAC_ELD"
    and "pendingSessions d (sessionID request) = Some info"
  shows "map_option (\<lambda>s. (map_option fp_id (mainProcess_video s), vsocket s,
                          map_option np_id (uVideoStream s),
                          map_option fp_id (mainProcess_audio s), asocket s,
                          map_option np_id (uAudioStream s)))
           (ongoingSessions (startStream request (Started sd) [] [] d) (sessionID request)) =
           Some (Some (nextId d + 2), Some (nextId d + 1), Some (nextId d),
                 Some (nextId d + 5), Some (nextId d + 4), Some (nextId d + 3))"
    and "failing (startStream request (Started sd) [] [] d) = failing d"
    and "serial_sd (startStream request (Started sd) [] [] d) = serial_sd d"
    and "stoppedProcesses (startStream request (Started sd) [] [] d) = stoppedProcesses d"
    and "closedSockets (startStream request (Started sd) [] [] d) = closedSockets d"
    and "closedPipes (startStream request (Started sd) [] [] d) = closedPipes d"
    and "stopCommands_sd (startStream request (Started sd) [] [] d) = stopCommands_sd d"
proof -
  let ?d0 = "on_livestream_start_sd sd (getLocalLiveStream_sd (Started sd) d)"
  let ?r = "startStream_resume request (Inr sd) ?d0"
  have p0: "pendingSessions ?d0 (sessionID request) = Some info"
    by (simp add: acquired_frame assms(2))
  note r = resume_found [OF p0, of sd]
  from r(4) obtain fr where fr: "snd ?r = Some fr" by (cases "snd ?r") auto
  have p1: "pendingSessions (fst ?r) (sessionID request) = Some info"
    by (simp add: r(10) p0)
  have run: "startStream request (Started sd) [] [] d = startStream_finish request fr (fst ?r)"
    by (simp add: start_undisturbed fr)
  note fin = finish_registered [OF p1, of fr]
  from r fr have sess:
    "map_option fp_id (mainProcess_video (fr_activeSession fr)) = Some (nextId d + 2)"
    "vsocket (fr_activeSession fr) = Some (nextId d + 1)"
    "map_option np_id (uVideoStream (fr_activeSession fr)) = Some (nextId d)"
    by (simp_all add: acquired_frame)
  have n: "nextId (fst ?r) = nextId d + 3"
    using p0 by (simp add: startStream_resume_def StreamInput_def createSocket_def
        new_FfmpegProcess_def Let_def acquired_frame)
  have au:
    "map_option fp_id (mainProcess_audio (fst (assemble_audio request fr (fst ?r)))) = Some (nextId d + 5)"
    "asocket (fst (assemble_audio request fr (fst ?r))) = Some (nextId d + 4)"
    "map_option np_id (uAudioStream (fst (assemble_audio request fr (fst ?r)))) = Some (nextId d + 3)"
    using assms(1) n
    by (auto simp add: assemble_audio_def StreamInput_def createSocket_def new_FfmpegProcess_def Let_def)
  show "map_option (\<lambda>s. (map_option fp_id (mainProcess_video s), vsocket s,
                          map_option np_id (uVideoStream s),
                          map_option fp_id (mainProcess_audio s), asocket s,
                          map_option np_id (uAudioStream s)))
           (ongoingSessions (startStream request (Started sd) [] [] d) (sessionID request)) =
           Some (Some (nextId d + 2), Some (nextId d + 1), Some (nextId d),
                 Some (nextId d + 5), Some (nextId d + 4), Some (nextId d + 3))"
    by (simp add: run fin sess au assemble_audio_new)
  show "failing (startStream request (Started sd) [] [] d) = failing d"
    and "serial_sd (startStream request (Started sd) [] [] d) = serial_sd d"
    and "stoppedProcesses (startStream request (Started sd) [] [] d) = stoppedProcesses d"
    and "closedSockets (startStream request (Started sd) [] [] d) = closedSockets d"
    and "closedPipes (startStream request (Started sd) [] [] d) = closedPipes d"
    and "stopCommands_sd (startStream request (Started sd) [] [] d) = stopCommands_sd d"
    by (simp_all add: run fin r assemble_audio_frame acquired_frame)
qed

lemma example_prepared_fields:
  "pendingSessions example_prepared ''A'' =
     Some \<lparr>address = ''192.168.1.20'', ipv6 = False, videoPort = 50000, videoReturnPort = 40000,
           videoCryptoSuite = 0, videoSRTP = [1, 2, 3, 4, 5], videoSSRC = 11,
           audioPort = 50002, audioReturnPort = 40002, audioCryptoSuite = 0,
           audioSRTP = [6, 7, 8, 9], audioSSRC = 22\<rparr>"
  "ongoingSessions example_prepared ''A'' = None"
  "logged_sd example_prepared = []"
  "callbacks example_prepared = []"
  "nextId example_prepared = 0"
  "failing example_prepared = []"
  "serial_sd example_prepared = ''T8113''"
  "stoppedProcesses example_prepared = []"
  "closedSockets example_prepared = []"
  "closedPipes example_prepared = []"
  "stopCommands_sd example_prepared = []"
  "spawned example_prepared = []"
  "sockets example_prepared = []"
  by (simp_all add: example_prepared_def prepareStream_def example_prepare_def example_delegate_def
      Let_def)

lemma example_prepared_extra:
  "pipes example_prepared = []"
  "stationListeners example_prepared = 0"
  "startCommands_sd example_prepared = []"
  "enableDetailedLogging example_prepared = 0"
  "cameraName_sd example_prepared = ''porch''"
  "videoConfig example_prepared = example_config"
  by (simp_all add: example_prepared_def prepareStream_def example_delegate_def Let_def)

lemma example_start_fields:
  "sessionID example_start = ''A''"
  "codec (audio example_start) = AAC_ELD"
  "sessionID example_start_pcmu = ''A''"
  "codec (audio example_start_pcmu) = PCMU"
  by (simp_all add: example_start_pcmu_def example_start_def)

lemma example_running_fields:
  "map_option (\<lambda>s. (map_option fp_id (mainProcess_video s), vsocket s,
                     map_option np_id (uVideoStream s),
                     map_option fp_id (mainProcess_audio s), asocket s,
                     map_option np_id (uAudioStream s)))
     (ongoingSessions example_running ''A'') =
     Some (Some 2, Some 1, Some 0, Some 5, Some 4, Some 3)"
  "failing example_running = []"
  "serial_sd example_running = ''T8113''"
  "stoppedProcesses example_running = []"
  "closedSockets example_running = []"
  "closedPipes example_running = []"
  "stopCommands_sd example_running = []"
proof -
  have c: "codec (audio example_start) = OPUS \<or> codec (audio example_start) = AAC_ELD"
    by (simp add: example_start_fields)
  note s = start_supported [of example_start example_prepared _ example_streamData,
      OF c example_prepared_fields(1) [folded example_start_fields(1)],
      unfolded example_prepared_fields add_0 example_start_fields(1)]
  show "map_option (\<lambda>s. (map_option fp_id (mainProcess_video s), vsocket s,
                     map_option np_id (uVideoStream s),
                     map_option fp_id (mainProcess_audio s), asocket s,
                     map_option np_id (uAudioStream s)))
     (ongoingSessions example_running ''A'') =
     Some (Some 2, Some 1, Some 0, Some 5, Some 4, Some 3)"
    unfolding example_running_def by (rule s(1))
  show "failing example_running = []" unfolding example_running_def by (rule s(2))
  show "serial_sd example_running = ''T8113''" unfolding example_running_def by (rule s(3))
  show "stoppedProcesses example_running = []" unfolding example_running_def by (rule s(4))
  show "closedSockets example_running = []" unfolding example_running_def by (rule s(5))
  show "closedPipes example_running = []" unfolding example_running_def by (rule s(6))
  show "stopCommands_sd example_running = []" unfolding example_running_def by (rule s(7))
qed

subsection \<open>Encode parameters\<close>

lemma ffmpegArgs_video_update:
  "ffmpegArgs_video (logged_sd_update f d) = ffmpegArgs_video d"
  "ffmpegArgs_video (nextId_update g d) = ffmpegArgs_video d"
  "ffmpegArgs_video (pipes_update h d) = ffmpegArgs_video d"
  by (simp_all add: fun_eq_iff ffmpegArgs_video_def loglevel_def)

lemma ffmpegArgs_video_env:
  "videoConfig d' = videoConfig d \<Longrightarrow> enableDetailedLogging d' = enableDetailedLogging d \<Longrightarrow>
   ffmpegArgs_video d' request sd u info ep = ffmpegArgs_video d request sd u info ep"
  by (simp add: ffmpegArgs_video_def loglevel_def)

lemma acquired_config:
  "videoConfig (on_livestream_start_sd sd (getLocalLiveStream_sd (Started sd) d)) = videoConfig d"
  "enableDetailedLogging (on_livestream_start_sd sd (getLocalLiveStream_sd (Started sd) d)) =
     enableDetailedLogging d"
  "cameraName_sd (on_livestream_start_sd sd (getLocalLiveStream_sd (Started sd) d)) = cameraName_sd d"
  "pipeUrl (on_livestream_start_sd sd (getLocalLiveStream_sd (Started sd) d)) = pipeUrl d"
  by (simp_all add: on_livestream_start_sd_def getLocalLiveStream_sd_def)

lemma resume_video_args:
  assumes "pendingSessions d (sessionID request) = Some info"
  shows "map_option (\<lambda>fr. map_option fp_args (mainProcess_video (fr_activeSession fr)))
           (snd (startStream_resume request (Inr sd) d)) =
         Some (Some (clean_args (ffmpegArgs_video d request sd (video_pipe d sd) info
                                  (encodeParameters (videoConfig d) (video request)))))"
  using assms
  by (simp add: startStream_resume_def StreamInput_def createSocket_def new_FfmpegProcess_def
      Let_def say_sd_def video_pipe_def ffmpegArgs_video_update)

lemma start_video_args:
  assumes "pendingSessions d (sessionID request) = Some info"
  shows "video_args (startStream request (Started sd) [] [] d) (sessionID request) =
           clean_args (ffmpegArgs_video d request sd (video_pipe d sd) info
                         (encodeParameters (videoConfig d) (video request)))"
proof -
  let ?d0 = "on_livestream_start_sd sd (getLocalLiveStream_sd (Started sd) d)"
  let ?r = "startStream_resume request (Inr sd) ?d0"
  have p0: "pendingSessions ?d0 (sessionID request) = Some info"
    by (simp add: acquired_frame assms)
  note r = resume_found [OF p0, of sd]
  from r(4) obtain fr where fr: "snd ?r = Some fr" by (cases "snd ?r") auto
  have p1: "pendingSessions (fst ?r) (sessionID request) = Some info"
    by (simp add: r(10) p0)
  have run: "startStream request (Started sd) [] [] d = startStream_finish request fr (fst ?r)"
    by (simp add: start_undisturbed fr)
  note fin = finish_registered [OF p1, of fr]
  have pipe: "video_pipe ?d0 sd = video_pipe d sd"
    by (simp add: video_pipe_def acquired_config acquired_frame)
  have env: "ffmpegArgs_video ?d0 request sd (video_pipe d sd) info
               (encodeParameters (videoConfig d) (video request)) =
             ffmpegArgs_video d request sd (video_pipe d sd) info
               (encodeParameters (videoConfig d) (video request))"
    by (rule ffmpegArgs_video_env) (simp_all add: acquired_config)
  from resume_video_args [OF p0, of sd] fr
  have args: "map_option fp_args (mainProcess_video (fr_activeSession fr)) =
      Some (clean_args (ffmpegArgs_video d request sd (video_pipe d sd) info
                          (encodeParameters (videoConfig d) (video request))))"
    by (simp add: pipe env acquired_config)
  then obtain p where p: "mainProcess_video (fr_activeSession fr) = Some p"
    "fp_args p = clean_args (ffmpegArgs_video d request sd (video_pipe d sd) info
                          (encodeParameters (videoConfig d) (video request)))"
    by (cases "mainProcess_video (fr_activeSession fr)") auto
  show ?thesis
    by (simp add: video_args_def run fin assemble_audio_new p)
qed

lemma video_slots:
  "length (ffmpegArgs_video d request sd u info ep) = 21"
  "ffmpegArgs_video d request sd u info ep ! 9 =
     (if ep_fps ep > 0 then ''-r '' @ show_int (ep_fps ep) else [])"
  "ffmpegArgs_video d request sd u info ep ! 11 =
     js_cond (res_videoFilter (ep_resolution ep)) (\<lambda>f. ''-filter:v '' @ f) []"
  "ffmpegArgs_video d request sd u info ep ! 12 =
     (if ep_videoBitrate ep > 0 then ''-b:v '' @ show_int (ep_videoBitrate ep) @ ''k'' else [])"
  by (simp_all add: ffmpegArgs_video_def)

lemma slot_is_argument:
  assumes "args ! i = x" and "i < length args" and "x \<noteq> []"
  shows "x \<in> set (clean_args args)"
proof -
  from assms(1) assms(2) have "x \<in> set args" by (auto simp add: in_set_conv_nth)
  with assms(3) show ?thesis by (simp add: clean_args_def)
qed

lemma join_comma_snoc2: "join_comma (xs @ [a, b]) = concat (map (\<lambda>x. x @ '','') xs) @ a @ '','' @ b"
proof (induction xs)
  case Nil
  show ?case by simp
next
  case (Cons x xs)
  then show ?case by (cases xs) simp_all
qed

lemma join_comma_nonempty: "join_comma (xs @ [a, b]) \<noteq> []"
  by (simp add: join_comma_snoc2)

lemma determineResolution_filter:
  assumes "indexOf (configured_filters cfg) ''none'' < 0"
    and "0 < clamped (maxWidth cfg) (forceMax cfg) (width v) \<or>
         0 < clamped (maxHeight cfg) (forceMax cfg) (height v)"
  shows "res_videoFilter (determineResolution cfg v False) =
           Some (join_comma (configured_filters cfg @
                   [scale_filter (clamped (maxWidth cfg) (forceMax cfg) (width v))
                                 (clamped (maxHeight cfg) (forceMax cfg) (height v)),
                    even_filter]))"
proof -
  have w: "(case maxWidth cfg of None \<Rightarrow> width v
            | Some mw \<Rightarrow> if forceMax cfg \<or> mw < width v then mw else width v) =
           clamped (maxWidth cfg) (forceMax cfg) (width v)"
    and h: "(case maxHeight cfg of None \<Rightarrow> height v
            | Some mh \<Rightarrow> if forceMax cfg \<or> mh < height v then mh else height v) =
           clamped (maxHeight cfg) (forceMax cfg) (height v)"
    by (simp_all add: clamped_def)
  from assms show ?thesis
    unfolding determineResolution_def Let_def configured_filters_def [symmetric]
      scale_filter_def even_filter_def w h
    by simp
qed

lemma encode_clamped:
  assumes "js_or (vcodec cfg) ''libx264'' \<noteq> ''copy''"
  shows "ep_videoBitrate (encodeParameters cfg v) =
           clamped (maxBitrate cfg) (forceMax cfg) (max_bit_rate v)"
    and "ep_fps (encodeParameters cfg v) = clamped (maxFPS cfg) (forceMax cfg) (fps v)"
    and "ep_resolution (encodeParameters cfg v) = determineResolution cfg v False"
  using assms by (simp_all add: encodeParameters_def Let_def clamped_def)

lemma encode_copy:
  assumes "js_or (vcodec cfg) ''libx264'' = ''copy''"
  shows "ep_vcodec (encodeParameters cfg v) = ''copy''"
    and "ep_fps (encodeParameters cfg v) = 0"
    and "ep_videoBitrate (encodeParameters cfg v) = 0"
    and "res_videoFilter (ep_resolution (encodeParameters cfg v)) = None"
    and "ep_encoderOptions (encodeParameters cfg v) = encoderOptions cfg"
  using assms by (simp_all add: encodeParameters_def Let_def)

lemma start_video_run:
  "pendingSessions d (sessionID request) = Some sessionInfo \<longrightarrow>
     video_args (startStream request (Started streamData) [] [] d) (sessionID request) =
       clean_args (ffmpegArgs_video d request streamData (video_pipe d streamData) sessionInfo
                     (encodeParameters (videoConfig d) (video request))) \<and>
     (js_or (vcodec (videoConfig d)) ''libx264'' \<noteq> ''copy'' \<longrightarrow>
        (0 < clamped (maxBitrate (videoConfig d)) (forceMax (videoConfig d))
               (max_bit_rate (video request)) \<longrightarrow>
           ''-b:v '' @ show_int (clamped (maxBitrate (videoConfig d)) (forceMax (videoConfig d))
                                  (max_bit_rate (video request))) @ ''k''
             \<in> set (video_args (startStream request (Started streamData) [] [] d)
                       (sessionID request))) \<and>
        (0 < clamped (maxFPS (videoConfig d)) (forceMax (videoConfig d)) (fps (video request)) \<longrightarrow>
           ''-r '' @ show_int (clamped (maxFPS (videoConfig d)) (forceMax (videoConfig d))
                                (fps (video request)))
             \<in> set (video_args (startStream request (Started streamData) [] [] d)
                       (sessionID request))) \<and>
        (indexOf (configured_filters (videoConfig d)) ''none'' < 0 \<and>
         (0 < clamped (maxWidth (videoConfig d)) (forceMax (videoConfig d)) (width (video request)) \<or>
          0 < clamped (maxHeight (videoConfig d)) (forceMax (videoConfig d))
                (height (video request))) \<longrightarrow>
           ''-filter:v '' @
             join_comma (configured_filters (videoConfig d) @
               [scale_filter
                  (clamped (maxWidth (videoConfig d)) (forceMax (videoConfig d))
                     (width (video request)))
                  (clamped (maxHeight (videoConfig d)) (forceMax (videoConfig d))
                     (height (video request))),
                even_filter])
             \<in> set (video_args (startStream request (Started streamData) [] [] d)
                       (sessionID request))) \<and>
        (maxBitrate (videoConfig d) = Some Y \<and> forceMax (videoConfig d) \<and>
         Y < max_bit_rate (video request) \<and> 0 < Y \<longrightarrow>
           ''-b:v '' @ show_int Y @ ''k''
             \<in> set (video_args (startStream request (Started streamData) [] [] d)
                       (sessionID request)))) \<and>
     (js_or (vcodec (videoConfig d)) ''libx264'' = ''copy'' \<longrightarrow>
        video_args (startStream request (Started streamData) [] [] d) (sessionID request) =
          clean_args
            [''-use_wallclock_as_timestamps 1'',
             (if videoCodec (sd_metadata streamData) = 0 then ''-f h264'' else []),
             ''-r '' @ show_int (videoFPS (sd_metadata streamData)),
             ''-i '' @ url (video_pipe d streamData),
             js_cond (mapvideo (videoConfig d)) (\<lambda>m. ''-map '' @ m) ''-an -sn -dn'',
             ''-codec:v copy'',
             ''-pix_fmt yuv420p'',
             ''-color_range mpeg'',
             js_or (encoderOptions (videoConfig d)) [],
             ''-payload_type '' @ show_int (pt (video request)),
             ''-ssrc '' @ show_int (videoSSRC sessionInfo),
             ''-f rtp'',
             ''-srtp_out_suite AES_CM_128_HMAC_SHA1_80'',
             ''-srtp_out_params '' @ base64 (videoSRTP sessionInfo),
             ''srtp://'' @ address sessionInfo @ '':'' @ show_int (videoPort sessionInfo) @
               ''?rtcpport='' @ show_int (videoPort sessionInfo) @ ''&pkt_size='' @
               show_int (ep_mtu (encodeParameters (videoConfig d) (video request))),
             loglevel d,
             ''-progress pipe:1''])"
proof (intro impI conjI)
  assume p: "pendingSessions d (sessionID request) = Some sessionInfo"
  show "video_args (startStream request (Started streamData) [] [] d) (sessionID request) =
       clean_args (ffmpegArgs_video d request streamData (video_pipe d streamData) sessionInfo
                     (encodeParameters (videoConfig d) (video request)))"
    by (rule start_video_args [OF p])
next
  let ?L = "ffmpegArgs_video d request streamData (video_pipe d streamData) sessionInfo
              (encodeParameters (videoConfig d) (video request))"
  assume p: "pendingSessions d (sessionID request) = Some sessionInfo"
    and nc: "js_or (vcodec (videoConfig d)) ''libx264'' \<noteq> ''copy''"
    and pos: "0 < clamped (maxBitrate (videoConfig d)) (forceMax (videoConfig d))
               (max_bit_rate (video request))"
  have "?L ! 12 = ''-b:v '' @ show_int (clamped (maxBitrate (videoConfig d))
          (forceMax (videoConfig d)) (max_bit_rate (video request))) @ ''k''"
    using pos by (simp add: video_slots(4) encode_clamped(1) [OF nc])
  then have "''-b:v '' @ show_int (clamped (maxBitrate (videoConfig d))
          (forceMax (videoConfig d)) (max_bit_rate (video request))) @ ''k'' \<in> set (clean_args ?L)"
    by (rule slot_is_argument) (simp_all add: video_slots(1))
  then show "''-b:v '' @ show_int (clamped (maxBitrate (videoConfig d)) (forceMax (videoConfig d))
                                  (max_bit_rate (video request))) @ ''k''
             \<in> set (video_args (startStream request (Started streamData) [] [] d)
                       (sessionID request))"
    by (simp only: start_video_args [OF p])
next
  let ?L = "ffmpegArgs_video d request streamData (video_pipe d streamData) sessionInfo
              (encodeParameters (videoConfig d) (video request))"
  assume p: "pendingSessions d (sessionID request) = Some sessionInfo"
    and nc: "js_or (vcodec (videoConfig d)) ''libx264'' \<noteq> ''copy''"
    and pos: "0 < clamped (maxFPS (videoConfig d)) (forceMax (videoConfig d)) (fps (video request))"
  have "?L ! 9 = ''-r '' @ show_int (clamped (maxFPS (videoConfig d)) (forceMax (videoConfig d))
                                (fps (video request)))"
    using pos by (simp add: video_slots(2) encode_clamped(2) [OF nc])
  then have "''-r '' @ show_int (clamped (maxFPS (videoConfig d)) (forceMax (videoConfig d))
                                (fps (video request))) \<in> set (clean_args ?L)"
    by (rule slot_is_argument) (simp_all add: video_slots(1))
  then show "''-r '' @ show_int (clamped (maxFPS (videoConfig d)) (forceMax (videoConfig d))
                                (fps (video request)))
             \<in> set (video_args (startStream request (Started streamData) [] [] d)
                       (sessionID request))"
    by (simp only: start_video_args [OF p])
next
  let ?L = "ffmpegArgs_video d request streamData (video_pipe d streamData) sessionInfo
              (encodeParameters (videoConfig d) (video request))"
  let ?F = "join_comma (configured_filters (videoConfig d) @
               [scale_filter
                  (clamped (maxWidth (videoConfig d)) (forceMax (videoConfig d))
                     (width (video request)))
                  (clamped (maxHeight (videoConfig d)) (forceMax (videoConfig d))
                     (height (video request))),
                even_filter])"
  assume p: "pendingSessions d (sessionID request) = Some sessionInfo"
    and nc: "js_or (vcodec (videoConfig d)) ''libx264'' \<noteq> ''copy''"
    and rs: "indexOf (configured_filters (videoConfig d)) ''none'' < 0 \<and>
         (0 < clamped (maxWidth (videoConfig d)) (forceMax (videoConfig d)) (width (video request)) \<or>
          0 < clamped (maxHeight (videoConfig d)) (forceMax (videoConfig d))
                (height (video request)))"
  from rs have f: "res_videoFilter (determineResolution (videoConfig d) (video request) False) =
      Some ?F"
    by (intro determineResolution_filter) simp_all
  have ne: "?F \<noteq> []" by (rule join_comma_nonempty)
  have "?L ! 11 = ''-filter:v '' @ ?F"
    using ne by (simp only: video_slots(3) encode_clamped(3) [OF nc] f js_cond_def option.case not_False_eq_True if_True)
  then have "''-filter:v '' @ ?F \<in> set (clean_args ?L)"
    by (rule slot_is_argument) (simp_all add: video_slots(1))
  then show "''-filter:v '' @ ?F
             \<in> set (video_args (startStream request (Started streamData) [] [] d)
                       (sessionID request))"
    by (simp only: start_video_args [OF p])
next
  let ?L = "ffmpegArgs_video d request streamData (video_pipe d streamData) sessionInfo
              (encodeParameters (videoConfig d) (video request))"
  assume p: "pendingSessions d (sessionID request) = Some sessionInfo"
    and nc: "js_or (vcodec (videoConfig d)) ''libx264'' \<noteq> ''copy''"
    and x: "maxBitrate (videoConfig d) = Some Y \<and> forceMax (videoConfig d) \<and>
         Y < max_bit_rate (video request) \<and> 0 < Y"
  have "?L ! 12 = ''-b:v '' @ show_int Y @ ''k''"
    using x by (simp add: video_slots(4) encode_clamped(1) [OF nc] clamped_def)
  then have "''-b:v '' @ show_int Y @ ''k'' \<in> set (clean_args ?L)"
    by (rule slot_is_argument) (simp_all add: video_slots(1))
  then show "''-b:v '' @ show_int Y @ ''k''
             \<in> set (video_args (startStream request (Started streamData) [] [] d)
                       (sessionID request))"
    by (simp only: start_video_args [OF p])
next
  assume p: "pendingSessions d (sessionID request) = Some sessionInfo"
    and c: "js_or (vcodec (videoConfig d)) ''libx264'' = ''copy''"
  show "video_args (startStream request (Started streamData) [] [] d) (sessionID request) =
          clean_args
            [''-use_wallclock_as_timestamps 1'',
             (if videoCodec (sd_metadata streamData) = 0 then ''-f h264'' else []),
             ''-r '' @ show_int (videoFPS (sd_metadata streamData)),
             ''-i '' @ url (video_pipe d streamData),
             js_cond (mapvideo (videoConfig d)) (\<lambda>m. ''-map '' @ m) ''-an -sn -dn'',
             ''-codec:v copy'',
             ''-pix_fmt yuv420p'',
             ''-color_range mpeg'',
             js_or (encoderOptions (videoConfig d)) [],
             ''-payload_type '' @ show_int (pt (video request)),
             ''-ssrc '' @ show_int (videoSSRC sessionInfo),
             ''-f rtp'',
             ''-srtp_out_suite AES_CM_128_HMAC_SHA1_80'',
             ''-srtp_out_params '' @ base64 (videoSRTP sessionInfo),
             ''srtp://'' @ address sessionInfo @ '':'' @ show_int (videoPort sessionInfo) @
               ''?rtcpport='' @ show_int (videoPort sessionInfo) @ ''&pkt_size='' @
               show_int (ep_mtu (encodeParameters (videoConfig d) (video request))),
             loglevel d,
             ''-progress pipe:1'']"
    by (simp add: start_video_args [OF p] ffmpegArgs_video_def encode_copy [OF c] js_cond_def
        clean_args_def)
qed

lemma example_prepared_copy_fields:
  "pendingSessions example_prepared_copy ''A'' = pendingSessions example_prepared ''A''"
  "videoConfig example_prepared_copy = example_config\<lparr>vcodec := Some ''copy''\<rparr>"
  "enableDetailedLogging example_prepared_copy = 0"
  "url (video_pipe example_prepared_copy example_streamData) = ''unix:/tmp/porch_video.sock''"
  "url (video_pipe example_prepared example_streamData) = ''unix:/tmp/porch_video.sock''"
  by (simp_all add: example_prepared_copy_def video_pipe_def example_prepared_def
      prepareStream_def example_delegate_def Let_def)

lemma example_numbers:
  "show_int 300 = ''300''"
  "show_int 15 = ''15''"
  "show_int 99 = ''99''"
  "show_int 11 = ''11''"
  "show_int 50000 = ''50000''"
  "show_int 1316 = ''1316''"
  "show_int 1280 = ''1280''"
  "show_int 720 = ''720''"
  "base64 [1, 2, 3, 4, 5] = ''AQIDBAU=''"
  by (simp_all add: show_int_def show_nat.simps base64_alphabet_def)

text \<open>
  C8. Unless the configured codec is \<open>copy\<close>, the bit rate, the frame rate, the width and
  the height that \<open>startStream\<close> uses are the requested values clamped as the
  specification says: the maximum replaces the requested value only when it is configured
  and either \<open>forceMax\<close> is set or the requested value exceeds it; so with
  \<open>maxBitrate = X\<close>, \<open>forceMax\<close> and a requested bit rate above \<open>X\<close> the bit rate is \<open>X\<close>.
  When the codec is \<open>copy\<close>, width, height, frame rate and bit rate are all 0 (reported as
  native), the video filter is unset, and the \<open>-r\<close>, \<open>-filter:v\<close> and \<open>-b:v\<close> arguments
  of the video process are empty, whatever the maxima.

  These are the values the encoder is run with. For a negotiated session that starts
  undisturbed, the video process registered for the session is started with the argument
  list built from these parameters. With a codec other than \<open>copy\<close> the list holds
  \<open>-b:v\<close> with the clamped bit rate and \<open>-r\<close> with the clamped frame rate whenever the
  clamped value is positive (so \<open>-b:v Xk\<close> for \<open>maxBitrate = X > 0\<close>, \<open>forceMax\<close> and a
  requested bit rate above \<open>X\<close>), and \<open>-filter:v\<close> with a scale filter of the clamped width
  and height unless the configured filters name \<open>none\<close> or both are not positive. With
  the codec \<open>copy\<close> the list is the one written out below, with no \<open>-r\<close> for the output,
  no \<open>-filter:v\<close> and no \<open>-b:v\<close>.
\<close>

theorem C8_encode_parameters:
  "(js_or (vcodec cfg) ''libx264'' \<noteq> ''copy'' \<longrightarrow>
      ep_videoBitrate (encodeParameters cfg v) =
        clamped (maxBitrate cfg) (forceMax cfg) (max_bit_rate v) \<and>
      ep_fps (encodeParameters cfg v) = clamped (maxFPS cfg) (forceMax cfg) (fps v) \<and>
      width (ep_resolution (encodeParameters cfg v)) =
        clamped (maxWidth cfg) (forceMax cfg) (width v) \<and>
      height (ep_resolution (encodeParameters cfg v)) =
        clamped (maxHeight cfg) (forceMax cfg) (height v) \<and>
      (maxBitrate cfg = Some X \<and> forceMax cfg \<and> X < max_bit_rate v \<longrightarrow>
         ep_videoBitrate (encodeParameters cfg v) = X)) \<and>
   (js_or (vcodec cfg) ''libx264'' = ''copy'' \<longrightarrow>
      width (ep_resolution (encodeParameters cfg v)) = 0 \<and>
      height (ep_resolution (encodeParameters cfg v)) = 0 \<and>
      ep_fps (encodeParameters cfg v) = 0 \<and>
      ep_videoBitrate (encodeParameters cfg v) = 0 \<and>
      res_videoFilter (ep_resolution (encodeParameters cfg v)) = None \<and>
      ffmpegArgs_video d request streamData u sessionInfo (encodeParameters cfg v) ! 9 = [] \<and>
      ffmpegArgs_video d request streamData u sessionInfo (encodeParameters cfg v) ! 11 = [] \<and>
      ffmpegArgs_video d request streamData u sessionInfo (encodeParameters cfg v) ! 12 = []) \<and>
   (pendingSessions d (sessionID request) = Some sessionInfo \<longrightarrow>
     video_args (startStream request (Started streamData) [] [] d) (sessionID request) =
       clean_args (ffmpegArgs_video d request streamData (video_pipe d streamData) sessionInfo
                     (encodeParameters (videoConfig d) (video request))) \<and>
     (js_or (vcodec (videoConfig d)) ''libx264'' \<noteq> ''copy'' \<longrightarrow>
        (0 < clamped (maxBitrate (videoConfig d)) (forceMax (videoConfig d))
               (max_bit_rate (video request)) \<longrightarrow>
           ''-b:v '' @ show_int (clamped (maxBitrate (videoConfig d)) (forceMax (videoConfig d))
                                  (max_bit_rate (video request))) @ ''k''
             \<in> set (video_args (startStream request (Started streamData) [] [] d)
                       (sessionID request))) \<and>
        (0 < clamped (maxFPS (videoConfig d)) (forceMax (videoConfig d)) (fps (video request)) \<longrightarrow>
           ''-r '' @ show_int (clamped (maxFPS (videoConfig d)) (forceMax (videoConfig d))
                                (fps (video request)))
             \<in> set (video_args (startStream request (Started streamData) [] [] d)
                       (sessionID request))) \<and>
        (indexOf (configured_filters (videoConfig d)) ''none'' < 0 \<and>
         (0 < clamped (maxWidth (videoConfig d)) (forceMax (videoConfig d)) (width (video request)) \<or>
          0 < clamped (maxHeight (videoConfig d)) (forceMax (videoConfig d))
                (height (video request))) \<longrightarrow>
           ''-filter:v '' @
             join_comma (configured_filters (videoConfig d) @
               [scale_filter
                  (clamped (maxWidth (videoConfig d)) (forceMax (videoConfig d))
                     (width (video request)))
                  (clamped (maxHeight (videoConfig d)) (forceMax (videoConfig d))
                     (height (video request))),
                even_filter])
             \<in> set (video_args (startStream request (Started streamData) [] [] d)
                       (sessionID request))) \<and>
        (maxBitrate (videoConfig d) = Some X \<and> forceMax (videoConfig d) \<and>
         X < max_bit_rate (video request) \<and> 0 < X \<longrightarrow>
           ''-b:v '' @ show_int X @ ''k''
             \<in> set (video_args (startStream request (Started streamData) [] [] d)
                       (sessionID request)))) \<and>
     (js_or (vcodec (videoConfig d)) ''libx264'' = ''copy'' \<longrightarrow>
        video_args (startStream request (Started streamData) [] [] d) (sessionID request) =
          clean_args
            [''-use_wallclock_as_timestamps 1'',
             (if videoCodec (sd_metadata streamData) = 0 then ''-f h264'' else []),
             ''-r '' @ show_int (videoFPS (sd_metadata streamData)),
             ''-i '' @ url (video_pipe d streamData),
             js_cond (mapvideo (videoConfig d)) (\<lambda>m. ''-map '' @ m) ''-an -sn -dn'',
             ''-codec:v copy'',
             ''-pix_fmt yuv420p'',
             ''-color_range mpeg'',
             js_or (encoderOptions (videoConfig d)) [],
             ''-payload_type '' @ show_int (pt (video request)),
             ''-ssrc '' @ show_int (videoSSRC sessionInfo),
             ''-f rtp'',
             ''-srtp_out_suite AES_CM_128_HMAC_SHA1_80'',
             ''-srtp_out_params '' @ base64 (videoSRTP sessionInfo),
             ''srtp://'' @ address sessionInfo @ '':'' @ show_int (videoPort sessionInfo) @
               ''?rtcpport='' @ show_int (videoPort sessionInfo) @ ''&pkt_size='' @
               show_int (ep_mtu (encodeParameters (videoConfig d) (video request))),
             loglevel d,
             ''-progress pipe:1'']))"
  (is "?clamp \<and> ?copy \<and> ?run")
proof -
  have a: ?clamp
  proof (intro conjI impI)
    assume nc: "js_or (vcodec cfg) ''libx264'' \<noteq> ''copy''"
    show "ep_videoBitrate (encodeParameters cfg v) =
            clamped (maxBitrate cfg) (forceMax cfg) (max_bit_rate v)"
      using nc by (simp add: encodeParameters_def Let_def clamped_def)
    show "ep_fps (encodeParameters cfg v) = clamped (maxFPS cfg) (forceMax cfg) (fps v)"
      using nc by (simp add: encodeParameters_def Let_def clamped_def)
    show "width (ep_resolution (encodeParameters cfg v)) =
            clamped (maxWidth cfg) (forceMax cfg) (width v)"
      using nc by (simp add: encodeParameters_def determineResolution_def Let_def clamped_def)
    show "height (ep_resolution (encodeParameters cfg v)) =
            clamped (maxHeight cfg) (forceMax cfg) (height v)"
      using nc by (simp add: encodeParameters_def determineResolution_def Let_def clamped_def)
    assume "maxBitrate cfg = Some X \<and> forceMax cfg \<and> X < max_bit_rate v"
    then show "ep_videoBitrate (encodeParameters cfg v) = X"
      using nc by (simp add: encodeParameters_def Let_def)
  qed
  have b: ?copy
  proof (intro conjI impI)
    assume c: "js_or (vcodec cfg) ''libx264'' = ''copy''"
    show "width (ep_resolution (encodeParameters cfg v)) = 0"
      using c by (simp add: encodeParameters_def Let_def)
    show "height (ep_resolution (encodeParameters cfg v)) = 0"
      using c by (simp add: encodeParameters_def Let_def)
    show "ep_fps (encodeParameters cfg v) = 0"
      using c by (simp add: encodeParameters_def Let_def)
    show "ep_videoBitrate (encodeParameters cfg v) = 0"
      using c by (simp add: encodeParameters_def Let_def)
    show "res_videoFilter (ep_resolution (encodeParameters cfg v)) = None"
      using c by (simp add: encodeParameters_def Let_def)
    show "ffmpegArgs_video d request streamData u sessionInfo (encodeParameters cfg v) ! 9 = []"
      using c by (simp add: encodeParameters_def Let_def ffmpegArgs_video_def)
    show "ffmpegArgs_video d request streamData u sessionInfo (encodeParameters cfg v) ! 11 = []"
      using c by (simp add: encodeParameters_def Let_def ffmpegArgs_video_def js_cond_def)
    show "ffmpegArgs_video d request streamData u sessionInfo (encodeParameters cfg v) ! 12 = []"
      using c by (simp add: encodeParameters_def Let_def ffmpegArgs_video_def)
  qed
  have c: ?run by (rule start_video_run)
  show ?thesis by (rule conjI [OF a conjI [OF b c]])
qed

theorem C8_encode_parameters_witness:
  "js_or (vcodec example_config) ''libx264'' \<noteq> ''copy'' \<and>
   maxBitrate example_config = Some 300 \<and> forceMax example_config \<and>
   300 < max_bit_rate example_video \<and>
   ep_videoBitrate (encodeParameters example_config example_video) = 300 \<and>
   ep_fps (encodeParameters example_config example_video) = 15 \<and>
   width (ep_resolution (encodeParameters example_config example_video)) = 1280 \<and>
   js_or (vcodec (example_config\<lparr>vcodec := Some ''copy''\<rparr>)) ''libx264'' = ''copy'' \<and>
   ep_videoBitrate (encodeParameters (example_config\<lparr>vcodec := Some ''copy''\<rparr>) example_video) = 0 \<and>
   ep_fps (encodeParameters (example_config\<lparr>vcodec := Some ''copy''\<rparr>) example_video) = 0 \<and>
   res_videoFilter (ep_resolution
     (encodeParameters (example_config\<lparr>vcodec := Some ''copy''\<rparr>) example_video)) = None \<and>
   pendingSessions example_prepared (sessionID example_start) \<noteq> None \<and>
   videoConfig example_prepared = example_config \<and>
   video example_start = example_video \<and>
   ''-b:v 300k'' \<in> set (video_args example_running ''A'') \<and>
   ''-r 15'' \<in> set (video_args example_running ''A'') \<and>
   ''-filter:v '' @ scale_filter 1280 720 @ '','' @ even_filter
     \<in> set (video_args example_running ''A'') \<and>
   video_args example_running ''A'' =
     [''-use_wallclock_as_timestamps 1'', ''-f h264'', ''-r 15'',
      ''-i unix:/tmp/porch_video.sock'', ''-an -sn -dn'', ''-codec:v libx264'',
      ''-pix_fmt yuv420p'', ''-color_range mpeg'', ''-r 15'',
      ''-preset ultrafast -tune zerolatency'',
      ''-filter:v '' @ scale_filter 1280 720 @ '','' @ even_filter,
      ''-b:v 300k'', ''-payload_type 99'', ''-ssrc 11'', ''-f rtp'',
      ''-srtp_out_suite AES_CM_128_HMAC_SHA1_80'', ''-srtp_out_params AQIDBAU='',
      ''srtp://192.168.1.20:50000?rtcpport=50000&pkt_size=1316'',
      ''-loglevel error'', ''-progress pipe:1''] \<and>
   pendingSessions example_prepared_copy (sessionID example_start) \<noteq> None \<and>
   js_or (vcodec (videoConfig example_prepared_copy)) ''libx264'' = ''copy'' \<and>
   video_args (startStream example_start (Started example_streamData) [] [] example_prepared_copy)
     ''A'' =
     [''-use_wallclock_as_timestamps 1'', ''-f h264'', ''-r 15'',
      ''-i unix:/tmp/porch_video.sock'', ''-an -sn -dn'', ''-codec:v copy'',
      ''-pix_fmt yuv420p'', ''-color_range mpeg'', ''-payload_type 99'', ''-ssrc 11'',
      ''-f rtp'', ''-srtp_out_suite AES_CM_128_HMAC_SHA1_80'', ''-srtp_out_params AQIDBAU='',
      ''srtp://192.168.1.20:50000?rtcpport=50000&pkt_size=1316'',
      ''-loglevel error'', ''-progress pipe:1'']"
proof -
  let ?info = "\<lparr>address = ''192.168.1.20'', ipv6 = False, videoPort = 50000,
      videoReturnPort = 40000, videoCryptoSuite = 0, videoSRTP = [1, 2, 3, 4, 5], videoSSRC = 11,
      audioPort = 50002, audioReturnPort = 40002, audioCryptoSuite = 0,
      audioSRTP = [6, 7, 8, 9], audioSSRC = 22\<rparr>"
  have h1: "js_or (vcodec example_config) ''libx264'' \<noteq> ''copy''"
    by (simp add: js_or_def example_config_def)
  have h2: "maxBitrate example_config = Some 300 \<and> forceMax example_config \<and>
            300 < max_bit_rate example_video"
    by (simp add: example_config_def example_video_def)
  have h3: "js_or (vcodec (example_config\<lparr>vcodec := Some ''copy''\<rparr>)) ''libx264'' = ''copy''"
    by (simp add: js_or_def)
  have v: "clamped (maxFPS example_config) (forceMax example_config) (fps example_video) = 15"
    "clamped (maxWidth example_config) (forceMax example_config) (width example_video) = 1280"
    "clamped (maxHeight example_config) (forceMax example_config) (height example_video) = 720"
    "clamped (maxBitrate example_config) (forceMax example_config) (max_bit_rate example_video) = 300"
    by (simp_all add: clamped_def example_config_def example_video_def)
  have rq: "video example_start = example_video" "sessionID example_start = ''A''"
    by (simp_all add: example_start_def)
  have cf: "videoConfig example_prepared = example_config"
    by (rule example_prepared_extra)
  have p: "pendingSessions example_prepared (sessionID example_start) = Some ?info"
    by (simp add: rq example_prepared_fields)
  have pc: "pendingSessions example_prepared_copy (sessionID example_start) = Some ?info"
    by (simp add: rq example_prepared_copy_fields example_prepared_fields)
  have nf: "configured_filters example_config = []"
    by (simp add: configured_filters_def example_config_def)
  note first = C8_encode_parameters [where cfg = example_config and v = example_video
      and X = 300 and d = example_prepared and request = example_start
      and streamData = example_streamData and sessionInfo = ?info]
  note second = C8_encode_parameters [where cfg = "example_config\<lparr>vcodec := Some ''copy''\<rparr>"
      and v = example_video and d = example_prepared_copy and request = example_start
      and streamData = example_streamData and sessionInfo = ?info]
  note clamp = first [THEN conjunct1, THEN mp, OF h1]
  note copy = second [THEN conjunct2, THEN conjunct1, THEN mp, OF h3]
  note run = first [THEN conjunct2, THEN conjunct2, THEN mp, OF p, unfolded cf rq]
  note run_copy = second [THEN conjunct2, THEN conjunct2, THEN mp, OF pc,
      unfolded example_prepared_copy_fields rq]
  note used = run [THEN conjunct2, THEN conjunct1, THEN mp, OF h1, unfolded v nf]
  have bitrate: "''-b:v 300k'' \<in> set (video_args example_running ''A'')"
    using used [THEN conjunct1] by (simp add: example_running_def example_numbers)
  have rate: "''-r 15'' \<in> set (video_args example_running ''A'')"
    using used [THEN conjunct2, THEN conjunct1] by (simp add: example_running_def example_numbers)
  have scale: "''-filter:v '' @ scale_filter 1280 720 @ '','' @ even_filter
     \<in> set (video_args example_running ''A'')"
    using used [THEN conjunct2, THEN conjunct2, THEN conjunct1]
    by (simp add: example_running_def)
  have ep: "encodeParameters example_config example_video =
      \<lparr>ep_vcodec = ''libx264'', ep_mtu = 1316,
       ep_encoderOptions = Some ''-preset ultrafast -tune zerolatency'',
       ep_resolution = determineResolution example_config example_video False,
       ep_fps = 15, ep_videoBitrate = 300\<rparr>"
    by (simp add: encodeParameters_def example_config_def example_video_def js_or_def truthy_def
        Let_def)
  have flt: "res_videoFilter (determineResolution example_config example_video False) =
      Some (scale_filter 1280 720 @ '','' @ even_filter)"
    using determineResolution_filter [of example_config example_video]
    by (simp add: nf v)
  have ne: "scale_filter 1280 720 @ '','' @ even_filter \<noteq> []"
    by simp
  have md: "videoCodec (sd_metadata example_streamData) = 0"
    "videoFPS (sd_metadata example_streamData) = 15"
    by (simp_all add: example_streamData_def example_metadata_def)
  have lg: "loglevel example_prepared = ''-loglevel error''"
    "loglevel example_prepared_copy = ''-loglevel error''"
    by (simp_all add: loglevel_def example_prepared_extra example_prepared_copy_fields)
  have mv: "mapvideo example_config = None" "encoderOptions example_config = None"
    "packetSize example_config = None" "pt example_video = 99"
    by (simp_all add: example_config_def example_video_def)
  have all: "video_args example_running ''A'' =
     [''-use_wallclock_as_timestamps 1'', ''-f h264'', ''-r 15'',
      ''-i unix:/tmp/porch_video.sock'', ''-an -sn -dn'', ''-codec:v libx264'',
      ''-pix_fmt yuv420p'', ''-color_range mpeg'', ''-r 15'',
      ''-preset ultrafast -tune zerolatency'',
      ''-filter:v '' @ scale_filter 1280 720 @ '','' @ even_filter,
      ''-b:v 300k'', ''-payload_type 99'', ''-ssrc 11'', ''-f rtp'',
      ''-srtp_out_suite AES_CM_128_HMAC_SHA1_80'', ''-srtp_out_params AQIDBAU='',
      ''srtp://192.168.1.20:50000?rtcpport=50000&pkt_size=1316'',
      ''-loglevel error'', ''-progress pipe:1'']"
    using ne
    by (simp add: example_running_def run [THEN conjunct1] ffmpegArgs_video_def ep flt md lg mv cf
        example_prepared_copy_fields example_numbers js_cond_def js_or_def clean_args_def rq
        base64_alphabet_def del: append_is_Nil_conv)
  have all_copy: "video_args
     (startStream example_start (Started example_streamData) [] [] example_prepared_copy) ''A'' =
     [''-use_wallclock_as_timestamps 1'', ''-f h264'', ''-r 15'',
      ''-i unix:/tmp/porch_video.sock'', ''-an -sn -dn'', ''-codec:v copy'',
      ''-pix_fmt yuv420p'', ''-color_range mpeg'', ''-payload_type 99'', ''-ssrc 11'',
      ''-f rtp'', ''-srtp_out_suite AES_CM_128_HMAC_SHA1_80'', ''-srtp_out_params AQIDBAU='',
      ''srtp://192.168.1.20:50000?rtcpport=50000&pkt_size=1316'',
      ''-loglevel error'', ''-progress pipe:1'']"
    using run_copy [THEN conjunct2, THEN conjunct2, THEN mp, OF h3]
    by (simp add: md lg mv example_prepared_copy_fields example_numbers js_cond_def js_or_def
        clean_args_def encodeParameters_def Let_def rq base64_alphabet_def)
  from clamp copy h1 h2 h3 v p pc cf rq bitrate rate scale all all_copy
  show ?thesis by (simp add: example_prepared_copy_fields)
qed

subsection \<open>stopStream\<close>

text \<open>
  C7, as stated, fails on its second half. Session \<open>A\<close> runs with video process 2 and
  audio process 5; when stopping process 2 throws, \<open>stopStream\<close> never calls \<open>stop\<close> on
  process 5 (both calls share one \<open>try\<close> block), while it goes on to close sockets 1
  and 4.
\<close>

theorem C7_video_failure_skips_audio:
  "map_option (map_option fp_id \<circ> mainProcess_video)
     (ongoingSessions (example_running\<lparr>failing := [StopProcess 2]\<rparr>) ''A'') = Some (Some 2) \<and>
   map_option (map_option fp_id \<circ> mainProcess_audio)
     (ongoingSessions (example_running\<lparr>failing := [StopProcess 2]\<rparr>) ''A'') = Some (Some 5) \<and>
   stoppedProcesses (stopStream ''A'' (example_running\<lparr>failing := [StopProcess 2]\<rparr>)) = [] \<and>
   closedSockets (stopStream ''A'' (example_running\<lparr>failing := [StopProcess 2]\<rparr>)) = [1, 4]"
proof -
  let ?d = "example_running\<lparr>failing := [StopProcess 2]\<rparr>"
  from example_running_fields(1) obtain s where
    s: "ongoingSessions example_running ''A'' = Some s"
    and ids: "map_option fp_id (mainProcess_video s) = Some 2" "vsocket s = Some 1"
      "map_option fp_id (mainProcess_audio s) = Some 5" "asocket s = Some 4"
    by (cases "ongoingSessions example_running ''A''") auto
  from ids obtain p q where pq: "mainProcess_video s = Some p" "fp_id p = 2"
    "mainProcess_audio s = Some q" "fp_id q = 5"
    by (cases "mainProcess_video s"; cases "mainProcess_audio s") auto
  have s': "ongoingSessions ?d ''A'' = Some s" using s by simp
  from stopStream_releases(1,2) [OF s'] pq ids s
  show ?thesis by (simp add: released_def example_running_fields)
qed

text \<open>
  C7, amended. \<open>stopStream\<close> is idempotent: a second call on the same session id, or a
  call on a session id that is in neither table, only writes its two log lines, so it
  releases nothing and raises nothing. Within one stop of a running session, the releases
  of one kind of resource (processes, sockets, pipes, the station stream) depend only on
  the failures of that kind: of each kind the video resource is released unless its own
  release throws, the audio resource unless its own or the video resource's release
  throws, the stop command is sent unless it throws, and the session leaves the
  ongoing-sessions table in every case.
\<close>

theorem C7_stop_idempotent_kinds:
  "stopStream sid (stopStream sid d) =
     say_sd Debug ''No session to stop.''
       (say_sd Info ''Stopping session with id: '' (stopStream sid d)) \<and>
   (pendingSessions d sid = None \<and> ongoingSessions d sid = None \<longrightarrow>
      stopStream sid d =
        say_sd Debug ''No session to stop.'' (say_sd Info ''Stopping session with id: '' d)) \<and>
   (ongoingSessions d sid = Some s \<longrightarrow>
      ongoingSessions (stopStream sid d) sid = None \<and>
      stoppedProcesses (stopStream sid d) =
        stoppedProcesses d @
          map fp_id (released (\<lambda>p. StopProcess (fp_id p)) (failing d)
                       (mainProcess_video s) (mainProcess_audio s)) \<and>
      closedSockets (stopStream sid d) =
        closedSockets d @ released CloseSocket (failing d) (vsocket s) (asocket s) \<and>
      closedPipes (stopStream sid d) =
        closedPipes d @
          map np_id (released (\<lambda>u. ClosePipe (np_id u)) (failing d)
                       (uVideoStream s) (uAudioStream s)) \<and>
      stopCommands_sd (stopStream sid d) =
        stopCommands_sd d @ (if StopLivestream \<in> set (failing d) then [] else [serial_sd d]))"
proof (intro conjI impI)
  show "stopStream sid (stopStream sid d) =
     say_sd Debug ''No session to stop.''
       (say_sd Info ''Stopping session with id: '' (stopStream sid d))"
    by (rule stopStream_unknown) (simp_all add: stopStream_tables)
next
  assume "pendingSessions d sid = None \<and> ongoingSessions d sid = None"
  then show "stopStream sid d =
        say_sd Debug ''No session to stop.'' (say_sd Info ''Stopping session with id: '' d)"
    by (simp add: stopStream_unknown)
next
  assume s: "ongoingSessions d sid = Some s"
  show "ongoingSessions (stopStream sid d) sid = None" by (simp add: stopStream_tables)
  from stopStream_releases [OF s]
  show "stoppedProcesses (stopStream sid d) =
        stoppedProcesses d @
          map fp_id (released (\<lambda>p. StopProcess (fp_id p)) (failing d)
                       (mainProcess_video s) (mainProcess_audio s))"
    and "closedSockets (stopStream sid d) =
        closedSockets d @ released CloseSocket (failing d) (vsocket s) (asocket s)"
    and "closedPipes (stopStream sid d) =
        closedPipes d @
          map np_id (released (\<lambda>u. ClosePipe (np_id u)) (failing d)
                       (uVideoStream s) (uAudioStream s))"
    and "stopCommands_sd (stopStream sid d) =
        stopCommands_sd d @ (if StopLivestream \<in> set (failing d) then [] else [serial_sd d])"
    by simp_all
qed

theorem C7_stop_idempotent_kinds_witness:
  "ongoingSessions example_running ''A'' \<noteq> None \<and>
   pendingSessions example_delegate ''B'' = None \<and> ongoingSessions example_delegate ''B'' = None \<and>
   ongoingSessions (stopStream ''A'' example_running) ''A'' = None \<and>
   stoppedProcesses (stopStream ''A'' example_running) = [2, 5] \<and>
   closedSockets (stopStream ''A'' example_running) = [1, 4] \<and>
   closedPipes (stopStream ''A'' example_running) = [0, 3] \<and>
   stopCommands_sd (stopStream ''A'' example_running) = [''T8113''] \<and>
   stoppedProcesses (stopStream ''A'' (stopStream ''A'' example_running)) = [2, 5] \<and>
   stoppedProcesses (stopStream ''B'' example_delegate) = []"
proof -
  from example_running_fields(1) obtain s where
    s: "ongoingSessions example_running ''A'' = Some s"
    and ids: "map_option fp_id (mainProcess_video s) = Some 2" "vsocket s = Some 1"
      "map_option np_id (uVideoStream s) = Some 0"
      "map_option fp_id (mainProcess_audio s) = Some 5" "asocket s = Some 4"
      "map_option np_id (uAudioStream s) = Some 3"
    by (cases "ongoingSessions example_running ''A''") auto
  from ids obtain p q u w where r: "mainProcess_video s = Some p" "fp_id p = 2"
    "mainProcess_audio s = Some q" "fp_id q = 5"
    "uVideoStream s = Some u" "np_id u = 0" "uAudioStream s = Some w" "np_id w = 3"
    by (cases "mainProcess_video s"; cases "mainProcess_audio s"; cases "uVideoStream s";
        cases "uAudioStream s") auto
  have h: "pendingSessions example_delegate ''B'' = None \<and> ongoingSessions example_delegate ''B'' = None"
    by (simp add: example_delegate_def)
  have e: "stoppedProcesses example_delegate = []" by (simp add: example_delegate_def)
  from C7_stop_idempotent_kinds [of "''A''" example_running s]
    C7_stop_idempotent_kinds [of "''B''" example_delegate] s h e r ids
  show ?thesis by (simp add: released_def example_running_fields)
qed

subsection \<open>A start whose pending entry is removed while it is suspended\<close>




subsection \<open>An audio codec the delegate does not encode\<close>

text \<open>
  C10, as stated, fails on its last part: the condition is logged with \<open>log.error\<close>; no
  warning is logged.
\<close>

theorem C10_unsupported_codec_logged_as_error:
  "Warn \<notin> set (map fst
     (logged_sd (startStream example_start_pcmu (Started example_streamData) [] [] example_prepared))) \<and>
   last (logged_sd (startStream example_start_pcmu (Started example_streamData) [] [] example_prepared)) =
     (Error, ''Unsupported audio codec requested: '')"
  using start_unsupported [of example_start_pcmu example_prepared _ example_streamData,
      OF _ _ example_prepared_fields(1) [folded example_start_fields(3)]]
  by (simp add: example_start_fields example_prepared_fields)

text \<open>
  C10, amended. A start request for a negotiated session whose audio codec is neither
  OPUS nor AAC_ELD, and that nothing interferes with, is not aborted: the session is
  registered with its video process, video socket and video pipe, and without audio
  process or audio socket (the audio pipe opened before the codec test is not attached to
  it); exactly one process is spawned and one socket bound; nothing is stopped or closed,
  no stop command is sent and the callback is not called with an error; the condition is
  reported by an error-level log entry.
\<close>

theorem C10_unsupported_audio_codec:
  assumes "codec (audio request) \<noteq> OPUS" and "codec (audio request) \<noteq> AAC_ELD"
    and "pendingSessions d (sessionID request) = Some info"
  shows "map_option (\<lambda>s. (map_option fp_id (mainProcess_video s), vsocket s,
                          map_option np_id (uVideoStream s),
                          mainProcess_audio s, asocket s, uAudioStream s))
           (ongoingSessions (startStream request (Started sd) [] [] d) (sessionID request)) =
           Some (Some (nextId d + 2), Some (nextId d + 1), Some (nextId d), None, None, None) \<and>
         map fp_id (spawned (startStream request (Started sd) [] [] d)) =
           map fp_id (spawned d) @ [nextId d + 2] \<and>
         map fst (sockets (startStream request (Started sd) [] [] d)) =
           map fst (sockets d) @ [nextId d + 1] \<and>
         stoppedProcesses (startStream request (Started sd) [] [] d) = stoppedProcesses d \<and>
         closedSockets (startStream request (Started sd) [] [] d) = closedSockets d \<and>
         closedPipes (startStream request (Started sd) [] [] d) = closedPipes d \<and>
         stopCommands_sd (startStream request (Started sd) [] [] d) = stopCommands_sd d \<and>
         callbacks (startStream request (Started sd) [] [] d) = callbacks d \<and>
         logged_sd (startStream request (Started sd) [] [] d) =
           logged_sd d @ [(Debug, ''ReqHK:''), (Debug, ''ReqEufy:''),
             (Debug, ''Video stream requested: ''), (Info, ''Starting video stream: ''),
             (Error, ''Unsupported audio codec requested: '')]"
  using assms by (rule start_unsupported)

theorem C10_unsupported_audio_codec_witness:
  "codec (audio example_start_pcmu) \<noteq> OPUS \<and> codec (audio example_start_pcmu) \<noteq> AAC_ELD \<and>
   pendingSessions example_prepared (sessionID example_start_pcmu) \<noteq> None \<and>
   map fp_id (spawned (startStream example_start_pcmu (Started example_streamData) [] [] example_prepared)) = [2] \<and>
   map fst (sockets (startStream example_start_pcmu (Started example_streamData) [] [] example_prepared)) = [1] \<and>
   stoppedProcesses (startStream example_start_pcmu (Started example_streamData) [] [] example_prepared) = [] \<and>
   callbacks (startStream example_start_pcmu (Started example_streamData) [] [] example_prepared) = [] \<and>
   logged_sd (startStream example_start_pcmu (Started example_streamData) [] [] example_prepared) =
     [(Debug, ''ReqHK:''), (Debug, ''ReqEufy:''), (Debug, ''Video stream requested: ''),
      (Info, ''Starting video stream: ''), (Error, ''Unsupported audio codec requested: '')]"
proof -
  have h1: "codec (audio example_start_pcmu) \<noteq> OPUS" by (simp add: example_start_fields)
  have h2: "codec (audio example_start_pcmu) \<noteq> AAC_ELD" by (simp add: example_start_fields)
  note h3 = example_prepared_fields(1) [folded example_start_fields(3)]
  from C10_unsupported_audio_codec [OF h1 h2 h3, of example_streamData] h1 h2 h3
  show ?thesis by (simp add: example_prepared_fields)
qed

subsection \<open>A start whose acquisition is rejected\<close>

lemma start_rejected:
  "startStream request (Throws e) [] [] d = say_sd Error '' Unable to start the livestream: '' d"
  by (simp add: startStream_def settlement_def getLocalLiveStream_sd_def startStream_resume_def)

text \<open>
  C3, evaluated on the code. When \<open>getLocalLiveStream()\<close> rejects, \<open>startStream\<close> only
  logs the error: the callback of the request is not called, nothing is registered, and
  the pending entry stays. When the session information is missing, the callback is
  called with an error.
\<close>

theorem C3_rejected_start_never_calls_back:
  "callbacks (startStream example_start (Throws ''station not found'') [] [] example_prepared) = [] \<and>
   logged_sd (startStream example_start (Throws ''station not found'') [] [] example_prepared) =
     [(Error, '' Unable to start the livestream: '')] \<and>
   ongoingSessions (startStream example_start (Throws ''station not found'') [] [] example_prepared) ''A'' = None \<and>
   pendingSessions (startStream example_start (Throws ''station not found'') [] [] example_prepared) ''A'' \<noteq> None \<and>
   callbacks (startStream example_start (Started example_streamData) [] [] example_delegate) =
     [(''A'', Some ''Error finding session information'')]"
proof -
  have a: "startStream example_start (Started example_streamData) [] [] example_delegate =
      fst (startStream_resume example_start (Inr example_streamData)
             (on_livestream_start_sd example_streamData
                (getLocalLiveStream_sd (Started example_streamData) example_delegate)))"
    by (simp add: start_undisturbed startStream_resume_def StreamInput_def Let_def acquired_frame
        example_delegate_def)
  have b: "callbacks (fst (startStream_resume example_start (Inr example_streamData)
             (on_livestream_start_sd example_streamData
                (getLocalLiveStream_sd (Started example_streamData) example_delegate)))) =
      [(''A'', Some ''Error finding session information'')]"
    by (simp add: startStream_resume_def StreamInput_def Let_def acquired_frame
        example_delegate_def example_start_fields)
  show ?thesis
    by (simp add: start_rejected example_prepared_fields a b)
qed

subsection \<open>Snapshots\<close>

lemma snapshot_never_cached:
  assumes "snapshotPromise d = None"
  shows "snapshotPromise (snd (handleSnapshotRequest request acq d)) = None"
    and "snapshotPromise (fst (fetchSnapshot_resume p snap outcome now d)) = None"
    and "snapshotPromise (fetchSnapshot_close fr buf now d) = None"
    and "snapshotPromise (handleSnapshotRequest_resume w outcome' resized d) = None"
    and "snapshotPromise (expire_snapshot now d) = None"
    and "sw_cached (fst (handleSnapshotRequest request acq d)) = False"
    and "sw_promise (fst (handleSnapshotRequest request acq d)) = nextId d"
    and "startCommands_sd (snd (handleSnapshotRequest request (Started sd) d)) =
           startCommands_sd d @ [serial_sd d]"
  using assms
  by (simp_all add: handleSnapshotRequest_def fetchSnapshot_def getLocalLiveStream_sd_def
      fetchSnapshot_resume_def fetchSnapshot_close_def handleSnapshotRequest_resume_def
      expire_snapshot_def spawn_def say_sd_def Let_def case_prod_beta
      split: sum.splits acquisition.splits)

lemma example_delegate_fields:
  "snapshotPromise example_delegate = None" "nextId example_delegate = 0"
  "startCommands_sd example_delegate = []" "serial_sd example_delegate = ''T8113''"
  "snapshotTimers example_delegate = []" "settled_sd example_delegate = []"
  "snapshotCallbacks example_delegate = []" "stopCommands_sd example_delegate = []"
  by (simp_all add: example_delegate_def)

text \<open>
  C2, evaluated on the code. The first snapshot request on the example delegate fetches
  an image, which completes at time 600 and arms the expiry timer for time 3600; the
  field \<open>snapshotPromise\<close> is still unset. A second request at time 1600, inside the 3
  second window, is therefore not served from a cached promise: it waits for a new
  promise and sends a second start command to the station.
\<close>

theorem C2_second_snapshot_fetches_again:
  "snapshotPromise example_snapshot_done = None \<and>
   settled_sd example_snapshot_done = [(0, Inr [255, 216])] \<and>
   snapshotCallbacks example_snapshot_done = [Some [255, 216]] \<and>
   snapshotTimers example_snapshot_done = [3600] \<and>
   startCommands_sd example_snapshot_done = [''T8113''] \<and>
   sw_cached (fst (handleSnapshotRequest example_snapshot (Started example_streamData)
                     (expire_snapshot 1600 example_snapshot_done))) = False \<and>
   sw_promise (fst (handleSnapshotRequest example_snapshot (Started example_streamData)
                      (expire_snapshot 1600 example_snapshot_done))) \<noteq>
     sw_promise example_snapshot_wait \<and>
   startCommands_sd (snd (handleSnapshotRequest example_snapshot (Started example_streamData)
                            (expire_snapshot 1600 example_snapshot_done))) =
     [''T8113'', ''T8113'']"
  by (simp add: example_snapshot_done_def example_snapshot_fetching_def example_snapshot_wait_def
      handleSnapshotRequest_def fetchSnapshot_def getLocalLiveStream_sd_def
      fetchSnapshot_resume_def fetchSnapshot_close_def handleSnapshotRequest_resume_def
      expire_snapshot_def spawn_def say_sd_def Let_def case_prod_beta example_delegate_fields)

end
